theory Spec2Isabelle
  imports Main "HOL-Library.AList"
begin

section \<open>JavaScript values\<close>

text \<open>
  The hooks of the plugin read and write untyped objects (\<open>context.metadata\<close>,
  \<open>result._meta\<close>, the \<open>any\<close>-typed arguments of the validators). They are modelled by
  a small value type. Numbers are the integers (prices, credits and counters are integral
  minor units; no floating point is modelled), a \<open>Date\<close> is its millisecond count, and an
  object is the list of its own properties in insertion order.
\<close>

datatype jsval =
    JUndefined
  | JNull
  | JBool bool
  | JNum int
  | JStr string
  | JDate int
  | JArr "jsval list"
  | JObj "(string \<times> jsval) list"

text \<open>Truthiness, as \<open>!x\<close>, \<open>x || y\<close> and \<open>if (x)\<close> test it.\<close>

fun truthy :: "jsval \<Rightarrow> bool" where
  "truthy JUndefined = False"
| "truthy JNull = False"
| "truthy (JBool b) = b"
| "truthy (JNum n) = (n \<noteq> 0)"
| "truthy (JStr s) = (s \<noteq> [])"
| "truthy (JDate t) = True"
| "truthy (JArr xs) = True"
| "truthy (JObj fs) = True"

text \<open>\<open>a || b\<close>\<close>

definition js_or :: "jsval \<Rightarrow> jsval \<Rightarrow> jsval" where
  "js_or a b = (if truthy a then a else b)"

text \<open>Reading a property of an object: a missing key reads as \<open>undefined\<close>.\<close>

definition get_prop :: "(string \<times> jsval) list \<Rightarrow> string \<Rightarrow> jsval" where
  "get_prop fs k = (case map_of fs k of Some v \<Rightarrow> v | None \<Rightarrow> JUndefined)"

text \<open>
  \<open>o?.k\<close> on an optional object (\<open>None\<close> is \<open>undefined\<close>), and \<open>v.k\<close> on a value that is
  known to be truthy (a primitive has none of the keys read here).
\<close>

definition opt_prop :: "(string \<times> jsval) list option \<Rightarrow> string \<Rightarrow> jsval" where
  "opt_prop ob k = (case ob of None \<Rightarrow> JUndefined | Some fs \<Rightarrow> get_prop fs k)"

fun member :: "jsval \<Rightarrow> string \<Rightarrow> jsval" where
  "member (JObj fs) k = get_prop fs k"
| "member v k = JUndefined"

text \<open>\<open>{...o, k: v}\<close>: the spread of \<open>undefined\<close> is empty; an existing key keeps its place.\<close>

definition spread_set :: "(string \<times> jsval) list option \<Rightarrow> string \<Rightarrow> jsval
    \<Rightarrow> (string \<times> jsval) list" where
  "spread_set ob k v = AList.update k v (case ob of None \<Rightarrow> [] | Some fs \<Rightarrow> fs)"

text \<open>Optional typed fields as values: an absent field reads as \<open>undefined\<close>.\<close>

definition js_of_str :: "string option \<Rightarrow> jsval" where
  "js_of_str s = (case s of None \<Rightarrow> JUndefined | Some x \<Rightarrow> JStr x)"

definition js_of_num :: "int option \<Rightarrow> jsval" where
  "js_of_num n = (case n of None \<Rightarrow> JUndefined | Some x \<Rightarrow> JNum x)"

text \<open>Decimal rendering of a number inside a template string.\<close>

fun decimal :: "nat \<Rightarrow> string" where
  "decimal n = (if n < 10 then [char_of (48 + n)]
                else decimal (n div 10) @ [char_of (48 + n mod 10)])"

declare decimal.simps [simp del]

definition template_num :: "int option \<Rightarrow> string" where
  "template_num n = (case n of None \<Rightarrow> ''undefined''
     | Some i \<Rightarrow> (if i < 0 then CHR ''-'' # decimal (nat (- i)) else decimal (nat i)))"

text \<open>
  \<open>Date.prototype.toISOString\<close> on a time value \<open>t\<close>, in milliseconds since the epoch
  and within the range of a \<open>Date\<close> (at most \<open>8.64e15\<close> either way): the proleptic Gregorian
  date of the day \<open>t div 86400000\<close>, the time of day, and a year of four digits, or of
  six with a sign outside \<open>0..9999\<close>.
\<close>

definition pad :: "nat \<Rightarrow> nat \<Rightarrow> string" where
  "pad w n = replicate (w - length (decimal n)) (CHR ''0'') @ decimal n"

definition toISOString :: "int \<Rightarrow> string" where
  "toISOString t =
     (let days = t div 86400000;
          ms = t mod 86400000;
          z = days + 719468;
          era = z div 146097;
          doe = z mod 146097;
          yoe = (doe - doe div 1460 + doe div 36524 - doe div 146096) div 365;
          doy = doe - (365 * yoe + yoe div 4 - yoe div 100);
          mp = (5 * doy + 2) div 153;
          d = doy - (153 * mp + 2) div 5 + 1;
          m = (if mp < 10 then mp + 3 else mp - 9);
          y = yoe + era * 400 + (if m \<le> 2 then 1 else 0)
      in (if 0 \<le> y \<and> y \<le> 9999 then pad 4 (nat y)
          else (if y < 0 then CHR ''-'' else CHR ''+'') # pad 6 (nat \<bar>y\<bar>))
         @ ''-'' @ pad 2 (nat m) @ ''-'' @ pad 2 (nat d)
         @ ''T'' @ pad 2 (nat (ms div 3600000))
         @ '':'' @ pad 2 (nat (ms mod 3600000 div 60000))
         @ '':'' @ pad 2 (nat (ms mod 60000 div 1000))
         @ ''.'' @ pad 3 (nat (ms mod 1000)) @ ''Z'')"

text \<open>
  JSON text is modelled by the document it spells. \<open>JSON.stringify\<close> writes a \<open>Date\<close> as
  its ISO string, leaves out a property whose value is \<open>undefined\<close>, and writes an
  \<open>undefined\<close> element of an array as \<open>null\<close>; \<open>JSON.parse\<close> reads the document back as a
  value.
\<close>

datatype json =
    JsonNull
  | JsonBool bool
  | JsonNum int
  | JsonStr string
  | JsonArr "json list"
  | JsonObj "(string \<times> json) list"

fun stringify_value :: "jsval \<Rightarrow> json"
  and stringify_elements :: "jsval list \<Rightarrow> json list"
  and stringify_members :: "(string \<times> jsval) list \<Rightarrow> (string \<times> json) list" where
  "stringify_value JUndefined = JsonNull"
| "stringify_value JNull = JsonNull"
| "stringify_value (JBool b) = JsonBool b"
| "stringify_value (JNum n) = JsonNum n"
| "stringify_value (JStr s) = JsonStr s"
| "stringify_value (JDate t) = JsonStr (toISOString t)"
| "stringify_value (JArr xs) = JsonArr (stringify_elements xs)"
| "stringify_value (JObj fs) = JsonObj (stringify_members fs)"
| "stringify_elements [] = []"
| "stringify_elements (x # xs) = stringify_value x # stringify_elements xs"
| "stringify_members [] = []"
| "stringify_members (kv # fs) =
     (if snd kv = JUndefined then stringify_members fs
      else (fst kv, stringify_value (snd kv)) # stringify_members fs)"

fun parse_value :: "json \<Rightarrow> jsval"
  and parse_elements :: "json list \<Rightarrow> jsval list"
  and parse_members :: "(string \<times> json) list \<Rightarrow> (string \<times> jsval) list" where
  "parse_value JsonNull = JNull"
| "parse_value (JsonBool b) = JBool b"
| "parse_value (JsonNum n) = JNum n"
| "parse_value (JsonStr s) = JStr s"
| "parse_value (JsonArr xs) = JArr (parse_elements xs)"
| "parse_value (JsonObj ms) = JObj (parse_members ms)"
| "parse_elements [] = []"
| "parse_elements (x # xs) = parse_value x # parse_elements xs"
| "parse_members [] = []"
| "parse_members (km # ms) = (fst km, parse_value (snd km)) # parse_members ms"


section \<open>The plugin: \<open>src/core/plugin.ts\<close>\<close>

text \<open>
  The exceptions of the program. A \<open>DatabaseError\<close> is kept by the operation it names (the
  second argument of its constructor in the adapter); its message embeds the text of
  the database driver, which is not modelled.
\<close>

datatype error =
    Error string
  | ValidationError string "(string \<times> string) list"
  | DatabaseError string

text \<open>
  \<open>StripeMonetizationConfig\<close> of \<open>interfaces/config.ts\<close>, the argument of the constructor,
  in the fields the modelled code reads or writes, with \<open>PerCallConfig\<close> for its billing
  options (a missing \<open>toolPrices\<close> or \<open>volumeDiscounts\<close> is the empty list).
\<close>

record per_call_config =
  defaultPrice :: int
  toolPrices :: "(string \<times> int) list"
  volumeDiscounts :: "(nat \<times> nat) list"
  minimumCharge :: "int option"

record stripe_config =
  secretKey :: string
  publishableKey :: string
  webhookSecret :: string

record monetization_config =
  cfg_billingModel :: string
  cfg_stripe :: stripe_config
  cfg_billing :: per_call_config
  cfg_environment :: string
  cfg_debug :: "bool option"

text \<open>
  The object \<open>this.config\<close> holds while the plugin runs, and the flag \<open>this.initialized\<close>.
  A field that is \<open>undefined\<close> is \<open>None\<close>. The hooks are modelled over any value of this
  state; the constructor below is the one the source has.
\<close>

record plugin_config =
  billingModel :: "string option"
  environment :: "string option"
  billing :: "per_call_config option"
  stripe :: "stripe_config option"
  enabled :: "bool option"
  priority :: "int option"
  debug :: "bool option"

record plugin =
  config :: plugin_config
  initialized :: bool

text \<open>
  \<open>createBasicSetup\<close> (\<open>utils/helpers.ts\<close>): the per-call configuration, whose environment
  is \<open>development\<close>.
\<close>

record setup_options =
  stripeSecretKey :: string
  stripePublishableKey :: string
  opt_webhookSecret :: string
  opt_defaultPrice :: int
  opt_toolPrices :: "(string \<times> int) list option"
  opt_volumeDiscounts :: "(nat \<times> nat) list option"

definition createBasicSetup :: "setup_options \<Rightarrow> monetization_config" where
  "createBasicSetup options =
     \<lparr>cfg_billingModel = ''per-call'',
      cfg_stripe = \<lparr>secretKey = stripeSecretKey options,
                     publishableKey = stripePublishableKey options,
                     webhookSecret = opt_webhookSecret options\<rparr>,
      cfg_billing = \<lparr>defaultPrice = opt_defaultPrice options,
                      toolPrices = (case opt_toolPrices options of None \<Rightarrow> [] | Some tp \<Rightarrow> tp),
                      volumeDiscounts =
                        (case opt_volumeDiscounts options of None \<Rightarrow> [] | Some vd \<Rightarrow> vd),
                      minimumCharge = Some 50\<rparr>,
      cfg_environment = ''development'',
      cfg_debug = Some True\<rparr>"

text \<open>
  The constructor assigns the configuration it is given to \<open>this.config\<close> and then assigns
  \<open>this.config\<close> again, to an object of three fields: \<open>enabled\<close>, \<open>priority\<close> and \<open>debug\<close>.
\<close>

definition StripeMonetizationPlugin :: "monetization_config \<Rightarrow> plugin" where
  "StripeMonetizationPlugin cfg =
     \<lparr>config = \<lparr>billingModel = None,
                 environment = None,
                 billing = None,
                 stripe = None,
                 enabled = Some True,
                 priority = Some 150,
                 debug = Some (cfg_debug cfg = Some True)\<rparr>,
      initialized = False\<rparr>"



record tool_call_context =
  ctx_toolName :: string
  ctx_args :: "(string \<times> jsval) list option"
  ctx_metadata :: "(string \<times> jsval) list option"

text \<open>
  The \<open>result\<close> member of a \<open>ToolCallResult\<close>: its content, the optional error flag and
  the optional \<open>_meta\<close> object. A result is an ordinary object, whose \<open>_meta\<close> can be
  assigned.
\<close>

record tool_call_result =
  res_content :: "jsval list"
  res_isError :: "bool option"
  res_meta :: "(string \<times> jsval) list option"

record auth_result =
  authenticated :: bool
  userId :: "string option"

record rate_limit_result =
  exceeded :: bool
  retryAfter :: "int option"

record billing_result =
  canProceed :: bool
  amount :: "int option"
  message :: "string option"

record usage_entry =
  use_userId :: jsval
  use_toolName :: string
  use_amount :: jsval
  use_timestamp :: int
  use_success :: bool

record payment =
  pay_userId :: jsval
  pay_amount :: jsval
  pay_toolName :: string
  pay_billingModel :: jsval

text \<open>
  The five private methods the hooks await. Each may reject; the hooks are modelled over
  any behaviour of them, and \<open>mock_services\<close> below is the one the source ships.
\<close>

record services =
  svc_authenticateUser :: "tool_call_context \<Rightarrow> error + auth_result"
  svc_checkRateLimit :: "tool_call_context \<Rightarrow> string option \<Rightarrow> error + rate_limit_result"
  svc_checkBilling :: "plugin \<Rightarrow> tool_call_context \<Rightarrow> string option \<Rightarrow> error + billing_result"
  svc_recordUsage :: "usage_entry \<Rightarrow> error + unit"
  svc_processPayment :: "payment \<Rightarrow> error + unit"

text \<open>
  \<open>authenticateUser\<close>: the random suffix of the user id is the parameter \<open>rnd\<close>.
\<close>

definition authenticateUser :: "string \<Rightarrow> tool_call_context \<Rightarrow> auth_result" where
  "authenticateUser rnd context =
     (let authHeader = js_or (opt_prop (ctx_metadata context) ''authorization'')
                             (opt_prop (ctx_args context) ''auth'')
      in if \<not> truthy authHeader then \<lparr>authenticated = False, userId = None\<rparr>
         else \<lparr>authenticated = True, userId = Some (''user_'' @ rnd)\<rparr>)"

definition checkRateLimit :: "tool_call_context \<Rightarrow> string option \<Rightarrow> rate_limit_result" where
  "checkRateLimit context uid = \<lparr>exceeded = False, retryAfter = None\<rparr>"

text \<open>\<open>checkBilling\<close>: a \<open>switch\<close> on the billing model tag.\<close>

definition checkBilling :: "plugin \<Rightarrow> tool_call_context \<Rightarrow> string option \<Rightarrow> billing_result" where
  "checkBilling p context uid =
     (if billingModel (config p) = Some ''per-call'' then
        \<lparr>canProceed = True, amount = Some 100, message = None\<rparr>
      else if billingModel (config p) = Some ''subscription'' then
        \<lparr>canProceed = True, amount = Some 0, message = None\<rparr>
      else if billingModel (config p) = Some ''freemium'' then
        \<lparr>canProceed = True, amount = Some 0, message = None\<rparr>
      else
        \<lparr>canProceed = True, amount = Some 100, message = None\<rparr>)"

definition recordUsage :: "usage_entry \<Rightarrow> error + unit" where
  "recordUsage u = Inr ()"

definition processPayment :: "payment \<Rightarrow> error + unit" where
  "processPayment pm = Inr ()"

definition mock_services :: "string \<Rightarrow> services" where
  "mock_services rnd =
     \<lparr>svc_authenticateUser = (\<lambda>context. Inr (authenticateUser rnd context)),
      svc_checkRateLimit = (\<lambda>context uid. Inr (checkRateLimit context uid)),
      svc_checkBilling = (\<lambda>p context uid. Inr (checkBilling p context uid)),
      svc_recordUsage = recordUsage,
      svc_processPayment = processPayment\<rparr>"

text \<open>The short-circuiting result every refusal of the gate has: an error flag and one text.\<close>

definition error_result :: "string \<Rightarrow> tool_call_result" where
  "error_result txt =
     \<lparr>res_content = [JObj [(''type'', JStr ''text''), (''text'', JStr txt)]],
      res_isError = Some True,
      res_meta = None\<rparr>"

definition message_or_default :: "billing_result \<Rightarrow> string" where
  "message_or_default b =
     (case message b of
        None \<Rightarrow> ''Payment required to use this tool.''
      | Some m \<Rightarrow> (if m = [] then ''Payment required to use this tool.'' else m))"

definition billing_metadata :: "plugin \<Rightarrow> auth_result \<Rightarrow> billing_result \<Rightarrow> jsval" where
  "billing_metadata p authResult billingResult =
     JObj [(''userId'', js_of_str (userId authResult)),
           (''amount'', js_of_num (amount billingResult)),
           (''currency'', JStr ''usd''),
           (''billingModel'', js_of_str (billingModel (config p)))]"

text \<open>
  The body of the \<open>try\<close> block of \<open>beforeToolCall\<close>. \<open>Inl\<close> is an exception that reaches the
  \<open>catch\<close>; \<open>Inr (None, c)\<close> is \<open>return undefined\<close> with the context as the hook left it;
  \<open>Inr (Some r, c)\<close> is a short-circuiting result.
\<close>

definition beforeToolCall_try :: "services \<Rightarrow> plugin \<Rightarrow> tool_call_context
    \<Rightarrow> error + (tool_call_result option \<times> tool_call_context)" where
  "beforeToolCall_try sv p context =
     (case svc_authenticateUser sv context of
        Inl e \<Rightarrow> Inl e
      | Inr authResult \<Rightarrow>
          if \<not> authenticated authResult then
            Inr (Some (error_result
                   ''Authentication required. Please provide valid credentials.''), context)
          else
            (case svc_checkRateLimit sv context (userId authResult) of
               Inl e \<Rightarrow> Inl e
             | Inr rateLimitResult \<Rightarrow>
                 if exceeded rateLimitResult then
                   Inr (Some (error_result
                          (''Rate limit exceeded. Try again in ''
                             @ template_num (retryAfter rateLimitResult) @ '' seconds.'')),
                        context)
                 else
                   (case svc_checkBilling sv p context (userId authResult) of
                      Inl e \<Rightarrow> Inl e
                    | Inr billingResult \<Rightarrow>
                        if \<not> canProceed billingResult then
                          Inr (Some (error_result (message_or_default billingResult)), context)
                        else
                          Inr (None,
                               context\<lparr>ctx_metadata :=
                                 Some (spread_set (ctx_metadata context) ''billing''
                                         (billing_metadata p authResult billingResult))\<rparr>))))"

text \<open>
  \<open>beforeToolCall\<close>: an uninitialised plugin throws before the \<open>try\<close>; an exception inside
  it is caught, and the development environment lets the call through.
\<close>

definition beforeToolCall :: "services \<Rightarrow> plugin \<Rightarrow> tool_call_context
    \<Rightarrow> error + (tool_call_result option \<times> tool_call_context)" where
  "beforeToolCall sv p context =
     (if \<not> initialized p then Inl (Error ''Stripe Monetization Plugin not initialized'')
      else
        (case beforeToolCall_try sv p context of
           Inr out \<Rightarrow> Inr out
         | Inl e \<Rightarrow>
             if environment (config p) = Some ''development'' then Inr (None, context)
             else Inr (Some (error_result
                    ''Billing system temporarily unavailable. Please try again later.''),
                       context)))"

text \<open>
  \<open>afterToolCall\<close>. The calls made to the usage recorder and to the payment processor are
  returned as a trace, in order. \<open>now\<close> is the clock read for the usage record and \<open>stamp\<close>
  the ISO rendering of the clock read for the billing summary.
\<close>

datatype event = RecordUsage usage_entry | ProcessPayment payment

definition is_error :: "tool_call_result \<Rightarrow> bool" where
  "is_error r = (res_isError r = Some True)"

definition billing_summary :: "jsval \<Rightarrow> tool_call_context \<Rightarrow> tool_call_result \<Rightarrow> string \<Rightarrow> jsval" where
  "billing_summary billingData context r stamp =
     JObj [(''charged'', JBool (\<not> is_error r)),
           (''amount'', member billingData ''amount''),
           (''currency'', JStr ''usd''),
           (''toolName'', JStr (ctx_toolName context)),
           (''timestamp'', JStr stamp)]"

definition billing_failure :: jsval where
  "billing_failure = JObj [(''error'', JStr ''Billing processing failed''), (''charged'', JBool False)]"

definition with_billing :: "tool_call_result \<Rightarrow> jsval \<Rightarrow> tool_call_result" where
  "with_billing r b = r\<lparr>res_meta := Some (spread_set (res_meta r) ''billing'' b)\<rparr>"

definition afterToolCall_try :: "services \<Rightarrow> int \<Rightarrow> string \<Rightarrow> tool_call_context
    \<Rightarrow> tool_call_result \<Rightarrow> (error + tool_call_result) \<times> event list" where
  "afterToolCall_try sv now stamp context r =
     (let billingData = opt_prop (ctx_metadata context) ''billing'' in
      if truthy billingData then
        (let u = \<lparr>use_userId = member billingData ''userId'',
                  use_toolName = ctx_toolName context,
                  use_amount = member billingData ''amount'',
                  use_timestamp = now,
                  use_success = (\<not> is_error r)\<rparr>
         in case svc_recordUsage sv u of
              Inl e \<Rightarrow> (Inl e, [RecordUsage u])
            | Inr _ \<Rightarrow>
                if \<not> is_error r then
                  (let pm = \<lparr>pay_userId = member billingData ''userId'',
                             pay_amount = member billingData ''amount'',
                             pay_toolName = ctx_toolName context,
                             pay_billingModel = member billingData ''billingModel''\<rparr>
                   in case svc_processPayment sv pm of
                        Inl e \<Rightarrow> (Inl e, [RecordUsage u, ProcessPayment pm])
                      | Inr _ \<Rightarrow>
                          (Inr (with_billing r (billing_summary billingData context r stamp)),
                           [RecordUsage u, ProcessPayment pm]))
                else
                  (Inr (with_billing r (billing_summary billingData context r stamp)),
                   [RecordUsage u]))
      else (Inr r, []))"

definition afterToolCall :: "services \<Rightarrow> plugin \<Rightarrow> int \<Rightarrow> string \<Rightarrow> tool_call_context
    \<Rightarrow> tool_call_result \<Rightarrow> tool_call_result \<times> event list" where
  "afterToolCall sv p now stamp context r =
     (if \<not> initialized p then (r, [])
      else
        (case afterToolCall_try sv now stamp context r of
           (Inr r', tr) \<Rightarrow> (r', tr)
         | (Inl e, tr) \<Rightarrow> (with_billing r billing_failure, tr)))"


text \<open>
  The per-call price as the specification words it, for comparison with \<open>checkBilling\<close>:
  the tool's own price or the default one, the discount of the highest tier whose
  threshold the calls of this cycle have reached, and the minimum charge as a floor.
\<close>

definition spec_highest_tier :: "(nat \<times> nat) list \<Rightarrow> nat \<Rightarrow> (nat \<times> nat) option" where
  "spec_highest_tier tiers calls =
     foldl (\<lambda>best t. if fst t \<le> calls \<and> (case best of None \<Rightarrow> True | Some b \<Rightarrow> fst b < fst t)
                       then Some t else best) None tiers"

definition spec_perCallPrice :: "per_call_config \<Rightarrow> string \<Rightarrow> nat \<Rightarrow> int" where
  "spec_perCallPrice cfg tool calls =
     (let price = (case map_of (toolPrices cfg) tool of Some q \<Rightarrow> q | None \<Rightarrow> defaultPrice cfg);
          discounted = (case spec_highest_tier (volumeDiscounts cfg) calls of
                          None \<Rightarrow> price
                        | Some t \<Rightarrow> price * (100 - int (snd t)) div 100)
      in case minimumCharge cfg of None \<Rightarrow> discounted | Some m \<Rightarrow> max m discounted)"


section \<open>The webhook endpoint: \<open>src/api/stripe-endpoints.ts\<close>\<close>

record webhook_response =
  received :: bool
  eventType :: "string option"
  wh_customerId :: "string option"
  processed :: "bool option"

text \<open>
  \<open>handleWebhook\<close> takes the payload and the signature and answers; \<open>st\<close> is whatever
  ledger and subscription state the process holds, returned as the method leaves it.
\<close>

definition handleWebhook :: "string \<Rightarrow> string \<Rightarrow> 's \<Rightarrow> webhook_response \<times> 's" where
  "handleWebhook payload signat st =
     (\<lparr>received = True,
       eventType = Some ''payment_intent.succeeded'',
       wh_customerId = Some ''cus_example123'',
       processed = Some True\<rparr>, st)"


section \<open>The SQLite adapter: \<open>src/core/database/adapters/sqlite.ts\<close>\<close>

text \<open>
  A customer as the adapter reads and writes it. An optional field is an \<open>option\<close>
  (\<open>null\<close> and \<open>undefined\<close> are both \<open>None\<close>), a \<open>Date\<close> is its millisecond count.
\<close>

record customer_usage =
  totalCalls :: int
  currentPeriodCalls :: int
  lastCallAt :: "int option"
  totalSpent :: int

record payment_method =
  pm_type :: string
  last4 :: "string option"
  brand :: "string option"
  expiryMonth :: "int option"
  expiryYear :: "int option"

record customer_data =
  stripeCustomerId :: "string option"
  email :: string
  name :: "string option"
  metadata :: "(string \<times> jsval) list option"
  subscriptionStatus :: "string option"
  planId :: "string option"
  credits :: "int option"
  usage :: "customer_usage option"
  paymentMethod :: "payment_method option"
  status :: string

record customer_info = customer_data +
  customerId :: string
  createdAt :: int
  updatedAt :: int

text \<open>
  A row of the \<open>customers\<close> table, column by column. The \<open>metadata\<close> column holds the JSON
  text of an object, which is the list of its members. The timestamp columns hold ISO
  text; the model keeps the instant.
\<close>

record customer_row =
  row_customer_id :: string
  row_stripe_customer_id :: "string option"
  row_email :: string
  row_name :: "string option"
  row_metadata :: "(string \<times> json) list option"
  row_subscription_status :: "string option"
  row_plan_id :: "string option"
  row_credits :: int
  row_created_at :: int
  row_updated_at :: int
  row_usage_total_calls :: int
  row_usage_current_period_calls :: int
  row_usage_last_call_at :: "int option"
  row_usage_total_spent :: int
  row_payment_method_type :: "string option"
  row_payment_method_last4 :: "string option"
  row_payment_method_brand :: "string option"
  row_payment_method_expiry_month :: "int option"
  row_payment_method_expiry_year :: "int option"
  row_status :: string

record sqlite_db =
  customers :: "customer_row list"

text \<open>\<open>s || null\<close> on an optional string, \<open>n || null\<close> and \<open>n || 0\<close> on an optional number.\<close>

definition str_or_null :: "string option \<Rightarrow> string option" where
  "str_or_null s = (case s of None \<Rightarrow> None | Some x \<Rightarrow> (if x = [] then None else Some x))"

definition num_or_null :: "int option \<Rightarrow> int option" where
  "num_or_null n = (case n of None \<Rightarrow> None | Some x \<Rightarrow> (if x = 0 then None else Some x))"

definition num_or_zero :: "int option \<Rightarrow> int" where
  "num_or_zero n = (case n of None \<Rightarrow> 0 | Some x \<Rightarrow> x)"

definition mapRowToCustomer :: "customer_row \<Rightarrow> customer_info" where
  "mapRowToCustomer row =
     \<lparr>stripeCustomerId = row_stripe_customer_id row,
      email = row_email row,
      name = row_name row,
      metadata =
        (case row_metadata row of None \<Rightarrow> None | Some ms \<Rightarrow> Some (parse_members ms)),
      subscriptionStatus = row_subscription_status row,
      planId = row_plan_id row,
      credits = Some (row_credits row),
      usage = Some \<lparr>totalCalls = row_usage_total_calls row,
                    currentPeriodCalls = row_usage_current_period_calls row,
                    lastCallAt = row_usage_last_call_at row,
                    totalSpent = row_usage_total_spent row\<rparr>,
      paymentMethod =
        (case str_or_null (row_payment_method_type row) of
           None \<Rightarrow> None
         | Some ty \<Rightarrow> Some \<lparr>pm_type = ty,
                            last4 = row_payment_method_last4 row,
                            brand = row_payment_method_brand row,
                            expiryMonth = row_payment_method_expiry_month row,
                            expiryYear = row_payment_method_expiry_year row\<rparr>),
      status = row_status row,
      customerId = row_customer_id row,
      createdAt = row_created_at row,
      updatedAt = row_updated_at row\<rparr>"

text \<open>\<open>SELECT * FROM customers WHERE customer_id = ?\<close>, first row.\<close>

definition getCustomer :: "string \<Rightarrow> sqlite_db \<Rightarrow> customer_info option" where
  "getCustomer cid db =
     (case find (\<lambda>row. row_customer_id row = cid) (customers db) of
        None \<Rightarrow> None
      | Some row \<Rightarrow> Some (mapRowToCustomer row))"

text \<open>
  Whether an \<open>INSERT\<close> of the row violates a constraint of the table: the primary key, or
  one of the \<open>UNIQUE\<close> columns \<open>email\<close> and \<open>stripe_customer_id\<close> (where \<open>NULL\<close>s never
  collide).
\<close>

definition insert_violation :: "customer_row \<Rightarrow> sqlite_db \<Rightarrow> bool" where
  "insert_violation row db =
     (list_ex (\<lambda>r. row_customer_id r = row_customer_id row) (customers db)
      \<or> list_ex (\<lambda>r. row_email r = row_email row) (customers db)
      \<or> (row_stripe_customer_id row \<noteq> None
          \<and> list_ex (\<lambda>r. row_stripe_customer_id r = row_stripe_customer_id row)
                (customers db)))"

definition new_row :: "string \<Rightarrow> int \<Rightarrow> customer_data \<Rightarrow> customer_row" where
  "new_row cid now customerData =
     \<lparr>row_customer_id = cid,
      row_stripe_customer_id = str_or_null (stripeCustomerId customerData),
      row_email = email customerData,
      row_name = str_or_null (name customerData),
      row_metadata =
        (case metadata customerData of
           None \<Rightarrow> None
         | Some fs \<Rightarrow> Some (stringify_members fs)),
      row_subscription_status = str_or_null (subscriptionStatus customerData),
      row_plan_id = str_or_null (planId customerData),
      row_credits = num_or_zero (credits customerData),
      row_created_at = now,
      row_updated_at = now,
      row_usage_total_calls = (case usage customerData of None \<Rightarrow> 0 | Some u \<Rightarrow> totalCalls u),
      row_usage_current_period_calls =
        (case usage customerData of None \<Rightarrow> 0 | Some u \<Rightarrow> currentPeriodCalls u),
      row_usage_last_call_at = (case usage customerData of None \<Rightarrow> None | Some u \<Rightarrow> lastCallAt u),
      row_usage_total_spent = (case usage customerData of None \<Rightarrow> 0 | Some u \<Rightarrow> totalSpent u),
      row_payment_method_type =
        (case paymentMethod customerData of None \<Rightarrow> None | Some m \<Rightarrow> str_or_null (Some (pm_type m))),
      row_payment_method_last4 =
        (case paymentMethod customerData of None \<Rightarrow> None | Some m \<Rightarrow> str_or_null (last4 m)),
      row_payment_method_brand =
        (case paymentMethod customerData of None \<Rightarrow> None | Some m \<Rightarrow> str_or_null (brand m)),
      row_payment_method_expiry_month =
        (case paymentMethod customerData of None \<Rightarrow> None | Some m \<Rightarrow> num_or_null (expiryMonth m)),
      row_payment_method_expiry_year =
        (case paymentMethod customerData of None \<Rightarrow> None | Some m \<Rightarrow> num_or_null (expiryYear m)),
      row_status = status customerData\<rparr>"

text \<open>
  \<open>createCustomer\<close>: \<open>cid\<close> is the identifier \<open>uuidv4()\<close> returns and \<open>now\<close> the clock. A
  failed \<open>INSERT\<close> leaves the table as it was and is rethrown as a \<open>DatabaseError\<close>.
\<close>

definition createCustomer :: "string \<Rightarrow> int \<Rightarrow> customer_data \<Rightarrow> sqlite_db
    \<Rightarrow> (error + customer_info) \<times> sqlite_db" where
  "createCustomer cid now customerData db =
     (if insert_violation (new_row cid now customerData) db
        then (Inl (DatabaseError ''createCustomer''), db)
      else
        (let db' = db\<lparr>customers := customers db @ [new_row cid now customerData]\<rparr>
         in case getCustomer cid db' of
              None \<Rightarrow> (Inl (DatabaseError ''createCustomer''), db')
            | Some customer \<Rightarrow> (Inr customer, db')))"

text \<open>
  \<open>updateCustomerCredits\<close>:
  \<open>UPDATE customers SET credits = credits + ?, updated_at = ? WHERE customer_id = ?\<close>.
\<close>

definition updateCustomerCredits :: "string \<Rightarrow> int \<Rightarrow> int \<Rightarrow> sqlite_db
    \<Rightarrow> (error + unit) \<times> sqlite_db" where
  "updateCustomerCredits cid creditChange now db =
     (Inr (),
      db\<lparr>customers :=
           map (\<lambda>row. if row_customer_id row = cid
                      then row\<lparr>row_credits := row_credits row + creditChange,
                               row_updated_at := now\<rparr>
                      else row) (customers db)\<rparr>)"


text \<open>The methods of \<open>SqliteAdapter\<close> and \<open>PostgresAdapter\<close> that only throw.\<close>

definition not_implemented :: "'s \<Rightarrow> (error + 'a) \<times> 's" where
  "not_implemented st = (Inl (Error ''Method not implemented''), st)"


section \<open>The database manager: \<open>src/core/database/manager.ts\<close>\<close>

text \<open>
  The part of the \<open>DatabaseAdapter\<close> interface the manager methods below delegate to, over
  the adapter's own storage \<open>'s\<close>. A credit transaction reaches the manager as an untyped
  object, so it is the list of its properties.
\<close>

record 's db_adapter =
  ad_createCustomer :: "customer_data \<Rightarrow> 's \<Rightarrow> (error + customer_info) \<times> 's"
  ad_getCustomer :: "string \<Rightarrow> 's \<Rightarrow> (error + customer_info option) \<times> 's"
  ad_updateCustomerCredits :: "string \<Rightarrow> int \<Rightarrow> 's \<Rightarrow> (error + unit) \<times> 's"
  ad_createCreditTransaction ::
    "(string \<times> jsval) list \<Rightarrow> 's \<Rightarrow> (error + (string \<times> jsval) list) \<times> 's"

text \<open>
  The SQLite adapter in a world where \<open>uuidv4()\<close> answers \<open>cid\<close> and the clock reads \<open>now\<close>,
  and the PostgreSQL adapter, all of whose methods throw.
\<close>

definition SqliteAdapter :: "string \<Rightarrow> int \<Rightarrow> sqlite_db db_adapter" where
  "SqliteAdapter cid now =
     \<lparr>ad_createCustomer = createCustomer cid now,
      ad_getCustomer = (\<lambda>c db. (Inr (getCustomer c db), db)),
      ad_updateCustomerCredits = (\<lambda>c creditChange db. updateCustomerCredits c creditChange now db),
      ad_createCreditTransaction = (\<lambda>transaction db. not_implemented db)\<rparr>"

definition PostgresAdapter :: "'s db_adapter" where
  "PostgresAdapter =
     \<lparr>ad_createCustomer = (\<lambda>customer st. not_implemented st),
      ad_getCustomer = (\<lambda>c st. not_implemented st),
      ad_updateCustomerCredits = (\<lambda>c creditChange st. not_implemented st),
      ad_createCreditTransaction = (\<lambda>transaction st. not_implemented st)\<rparr>"

text \<open>
  The test \<open>/^[^\s@]+@[^\s@]+\.[^\s@]+$/\<close>: one \<open>@\<close>, no white space, a non-empty local
  part, and a domain with a dot that is neither its first nor its last character. The
  white space of \<open>\s\<close> is taken within the 8-bit characters of \<open>string\<close>.
\<close>

definition is_space :: "char \<Rightarrow> bool" where
  "is_space c = (c \<in> set [CHR 0x09, CHR 0x0A, CHR 0x0B, CHR 0x0C, CHR 0x0D, CHR 0x20, CHR 0xA0])"

definition email_test :: "string \<Rightarrow> bool" where
  "email_test s =
     (let local = takeWhile (\<lambda>c. c \<noteq> CHR ''@'') s;
          rest = dropWhile (\<lambda>c. c \<noteq> CHR ''@'') s
      in local \<noteq> [] \<and> list_all (\<lambda>c. \<not> is_space c) local \<and> rest \<noteq> []
         \<and> list_all (\<lambda>c. \<not> is_space c \<and> c \<noteq> CHR ''@'') (tl rest)
         \<and> CHR ''.'' \<in> set (butlast (tl (tl rest))))"

definition validateCustomerData :: "customer_data \<Rightarrow> (string \<times> string) list" where
  "validateCustomerData customer =
     (if email customer = [] then [(''email'', ''Email is required'')]
      else if \<not> email_test (email customer) then [(''email'', ''Invalid email format'')]
      else [])
     @ (if status customer = [] then [(''status'', ''Status is required'')]
        else if status customer \<notin> set [''active'', ''suspended'', ''deleted'']
          then [(''status'', ''Invalid status value'')]
        else [])"

definition manager_createCustomer :: "'s db_adapter \<Rightarrow> customer_data \<Rightarrow> 's
    \<Rightarrow> (error + customer_info) \<times> 's" where
  "manager_createCustomer ad customer st =
     (if validateCustomerData customer \<noteq> []
        then (Inl (ValidationError ''Customer validation failed'' (validateCustomerData customer)), st)
      else ad_createCustomer ad customer st)"

definition manager_getCustomer :: "'s db_adapter \<Rightarrow> string \<Rightarrow> 's
    \<Rightarrow> (error + customer_info option) \<times> 's" where
  "manager_getCustomer ad cid st =
     (if cid = []
        then (Inl (ValidationError ''Customer ID is required''
                     [(''customerId'', ''Required field is missing'')]), st)
      else ad_getCustomer ad cid st)"

definition manager_updateCustomerCredits :: "'s db_adapter \<Rightarrow> string \<Rightarrow> int \<Rightarrow> 's
    \<Rightarrow> (error + unit) \<times> 's" where
  "manager_updateCustomerCredits ad cid creditChange st =
     (if cid = []
        then (Inl (ValidationError ''Customer ID is required''
                     [(''customerId'', ''Required field is missing'')]), st)
      else ad_updateCustomerCredits ad cid creditChange st)"

text \<open>\<open>typeof v === 'number'\<close>, \<open>v instanceof Date\<close>, and \<open>v < 0\<close> on a number.\<close>

fun is_number :: "jsval \<Rightarrow> bool" where
  "is_number (JNum n) = True"
| "is_number v = False"

fun is_date :: "jsval \<Rightarrow> bool" where
  "is_date (JDate t) = True"
| "is_date v = False"

fun negative :: "jsval \<Rightarrow> bool" where
  "negative (JNum n) = (n < 0)"
| "negative v = False"

definition transaction_types :: "string list" where
  "transaction_types = [''purchase'', ''consumption'', ''refund'', ''bonus'', ''expiry'']"

definition validateCreditTransaction :: "(string \<times> jsval) list \<Rightarrow> (string \<times> string) list" where
  "validateCreditTransaction transaction =
     (if \<not> truthy (get_prop transaction ''customerId'')
        then [(''customerId'', ''Customer ID is required'')] else [])
     @ (if \<not> truthy (get_prop transaction ''type'')
           \<or> get_prop transaction ''type'' \<notin> set (map JStr transaction_types)
        then [(''type'', ''Valid transaction type is required'')] else [])
     @ (if \<not> is_number (get_prop transaction ''amount'')
        then [(''amount'', ''Amount must be a number'')] else [])
     @ (if \<not> is_number (get_prop transaction ''balanceAfter'')
           \<or> negative (get_prop transaction ''balanceAfter'')
        then [(''balanceAfter'', ''Balance after must be a non-negative number'')] else [])
     @ (if \<not> truthy (get_prop transaction ''description'')
        then [(''description'', ''Description is required'')] else [])
     @ (if \<not> truthy (get_prop transaction ''timestamp'')
           \<or> \<not> is_date (get_prop transaction ''timestamp'')
        then [(''timestamp'', ''Valid timestamp is required'')] else [])"

definition manager_createCreditTransaction :: "'s db_adapter \<Rightarrow> (string \<times> jsval) list \<Rightarrow> 's
    \<Rightarrow> (error + (string \<times> jsval) list) \<times> 's" where
  "manager_createCreditTransaction ad transaction st =
     (if validateCreditTransaction transaction \<noteq> []
        then (Inl (ValidationError ''Credit transaction validation failed''
                     (validateCreditTransaction transaction)), st)
      else ad_createCreditTransaction ad transaction st)"

text \<open>
  A batch of balance updates reaching the manager in a given arrival order; each is one
  \<open>UPDATE\<close> statement, so any interleaving of the callers is one such order.
\<close>

fun apply_credit_updates :: "'s db_adapter \<Rightarrow> (string \<times> int) list \<Rightarrow> 's
    \<Rightarrow> (error + unit) list \<times> 's" where
  "apply_credit_updates ad [] st = ([], st)"
| "apply_credit_updates ad (rq # rqs) st =
     (let (r, st') = manager_updateCustomerCredits ad (fst rq) (snd rq) st;
          (rs, st'') = apply_credit_updates ad rqs st'
      in (r # rs, st''))"

text \<open>The balance of an account, read through \<open>getCustomer\<close>.\<close>

definition balance :: "string \<Rightarrow> sqlite_db \<Rightarrow> int option" where
  "balance cid db = (case getCustomer cid db of None \<Rightarrow> None | Some c \<Rightarrow> credits c)"



section \<open>Scenarios\<close>

text \<open>
  Concrete plugins, calls, customers and stores on which the results below are exercised.
  \<open>configured_plugin\<close> is the plugin the constructor builds from \<open>createBasicSetup\<close>;
  \<open>plugin_in\<close> is an initialised plugin whose \<open>this.config\<close> holds a per-call configuration.
  The services the source ships are \<open>mock_services\<close>. The three other services are not in
  the source: each replaces one awaited method by one whose storage or payment fails.
\<close>

definition basic_billing :: per_call_config where
  "basic_billing =
     \<lparr>defaultPrice = 200, toolPrices = [], volumeDiscounts = [], minimumCharge = None\<rparr>"

definition plugin_in :: "string \<Rightarrow> plugin" where
  "plugin_in env =
     \<lparr>config = \<lparr>billingModel = Some ''per-call'', environment = Some env,
                 billing = Some basic_billing,
                 stripe = Some \<lparr>secretKey = ''sk_test_123'', publishableKey = ''pk_test_123'',
                                 webhookSecret = ''whsec_123''\<rparr>,
                 enabled = Some True, priority = Some 150, debug = Some False\<rparr>,
      initialized = True\<rparr>"

definition basic_options :: setup_options where
  "basic_options =
     \<lparr>stripeSecretKey = ''sk_test_123'', stripePublishableKey = ''pk_test_123'',
      opt_webhookSecret = ''whsec_123'', opt_defaultPrice = 100,
      opt_toolPrices = None, opt_volumeDiscounts = None\<rparr>"

definition configured_plugin :: plugin where
  "configured_plugin = StripeMonetizationPlugin (createBasicSetup basic_options)"

definition failing_services :: services where
  "failing_services =
     (mock_services ''k3x9'')\<lparr>svc_checkBilling :=
        (\<lambda>p context uid. Inl (DatabaseError ''getCustomer''))\<rparr>"

definition unrecorded_services :: services where
  "unrecorded_services =
     (mock_services ''k3x9'')\<lparr>svc_recordUsage :=
        (\<lambda>u. Inl (DatabaseError ''createUsageRecord''))\<rparr>"

definition unpaid_services :: services where
  "unpaid_services =
     (mock_services ''k3x9'')\<lparr>svc_processPayment :=
        (\<lambda>pm. Inl (Error ''Your card was declined.''))\<rparr>"

definition authorized_call :: tool_call_context where
  "authorized_call =
     \<lparr>ctx_toolName = ''calculate'',
      ctx_args = Some [(''a'', JNum 1)],
      ctx_metadata = Some [(''authorization'', JStr ''Bearer t0k3n'')]\<rparr>"

definition anonymous_call :: tool_call_context where
  "anonymous_call =
     \<lparr>ctx_toolName = ''calculate'',
      ctx_args = Some [(''a'', JNum 1)],
      ctx_metadata = None\<rparr>"

definition billed_call :: tool_call_context where
  "billed_call =
     authorized_call\<lparr>ctx_metadata :=
       Some [(''authorization'', JStr ''Bearer t0k3n''),
             (''billing'', JObj [(''userId'', JStr ''user_k3x9''), (''amount'', JNum 100),
                                 (''currency'', JStr ''usd''),
                                 (''billingModel'', JStr ''per-call'')])]\<rparr>"

definition failed_result :: tool_call_result where
  "failed_result =
     \<lparr>res_content = [JObj [(''type'', JStr ''text''), (''text'', JStr ''division by zero'')]],
      res_isError = Some True,
      res_meta = Some [(''requestId'', JStr ''r-17'')]\<rparr>"

definition good_result :: tool_call_result where
  "good_result =
     \<lparr>res_content = [JObj [(''type'', JStr ''text''), (''text'', JStr ''42'')]],
      res_isError = None,
      res_meta = Some [(''requestId'', JStr ''r-18'')]\<rparr>"

definition alice :: customer_data where
  "alice =
     \<lparr>stripeCustomerId = Some ''cus_A1'', email = ''alice@example.com'', name = Some ''Alice'',
      metadata = None, subscriptionStatus = None, planId = Some ''basic'', credits = Some 0,
      usage = Some \<lparr>totalCalls = 0, currentPeriodCalls = 0, lastCallAt = None, totalSpent = 0\<rparr>,
      paymentMethod = None, status = ''active''\<rparr>"

definition unnamed :: customer_data where
  "unnamed = alice\<lparr>stripeCustomerId := None, name := Some []\<rparr>"

definition empty_db :: sqlite_db where
  "empty_db = \<lparr>customers = []\<rparr>"

definition alice_db :: sqlite_db where
  "alice_db = snd (createCustomer ''c-1'' 1000 alice empty_db)"

text \<open>An adapter that does implement \<open>createCreditTransaction\<close>, over an in-memory ledger.\<close>

definition ledger_adapter :: "(string \<times> jsval) list list db_adapter" where
  "ledger_adapter =
     \<lparr>ad_createCustomer = (\<lambda>customer st. not_implemented st),
      ad_getCustomer = (\<lambda>c st. not_implemented st),
      ad_updateCustomerCredits = (\<lambda>c creditChange st. not_implemented st),
      ad_createCreditTransaction =
        (\<lambda>transaction st. (Inr ((''id'', JStr ''tx-1'') # transaction), st @ [transaction]))\<rparr>"

definition credit_transaction :: "string \<Rightarrow> (string \<times> jsval) list" where
  "credit_transaction ty =
     [(''customerId'', JStr ''c-1''), (''type'', JStr ty), (''amount'', JNum 5),
      (''balanceAfter'', JNum 5), (''description'', JStr ''manual correction''),
      (''timestamp'', JDate 1700000000000)]"


section \<open>Unfolding rules\<close>

lemmas js_defs =
  opt_prop_def get_prop_def js_or_def spread_set_def js_of_str_def js_of_num_def

lemmas plugin_defs =
  mock_services_def authenticateUser_def checkRateLimit_def checkBilling_def recordUsage_def
  processPayment_def basic_billing_def plugin_in_def authorized_call_def billed_call_def
  failed_result_def

lemmas db_defs =
  alice_def empty_db_def alice_db_def createCustomer_def new_row_def
  insert_violation_def getCustomer_def mapRowToCustomer_def str_or_null_def num_or_null_def
  num_or_zero_def SqliteAdapter_def updateCustomerCredits_def balance_def


section \<open>The billing gate\<close>

text \<open>
  The try block of the gate throws exactly when one of the three checks throws on the
  path that reaches it.
\<close>

lemma beforeToolCall_try_throws:
  "beforeToolCall_try sv p context = Inl e \<longleftrightarrow>
     (svc_authenticateUser sv context = Inl e
      \<or> (\<exists>a. svc_authenticateUser sv context = Inr a \<and> authenticated a
            \<and> (svc_checkRateLimit sv context (userId a) = Inl e
                \<or> (\<exists>rl. svc_checkRateLimit sv context (userId a) = Inr rl \<and> \<not> exceeded rl
                      \<and> svc_checkBilling sv p context (userId a) = Inl e))))"
  by (auto simp add: beforeToolCall_try_def split: sum.splits if_splits)

text \<open>The checks the source ships always answer, and its billing check never refuses.\<close>

lemma shipped_checks_answer:
  "svc_authenticateUser (mock_services rnd) context
     = Inr (if truthy (opt_prop (ctx_metadata context) ''authorization'')
               \<or> truthy (opt_prop (ctx_args context) ''auth'')
            then \<lparr>authenticated = True, userId = Some (''user_'' @ rnd)\<rparr>
            else \<lparr>authenticated = False, userId = None\<rparr>)"
  "svc_checkRateLimit (mock_services rnd) context uid = Inr \<lparr>exceeded = False, retryAfter = None\<rparr>"
  "svc_checkBilling (mock_services rnd) p context uid = Inr (checkBilling p context uid)"
  "canProceed (checkBilling p context uid)"
  by (simp_all add: mock_services_def authenticateUser_def checkRateLimit_def checkBilling_def
        js_or_def)

lemma gate_attaches_billing:
  "beforeToolCall (mock_services ''k3x9'') (plugin_in ''production'') authorized_call
     = Inr (None, billed_call)"
  by (simp add: beforeToolCall_def beforeToolCall_try_def billing_metadata_def plugin_defs js_defs)

lemma decimal_example: "template_num (Some 42) = ''42'' \<and> template_num None = ''undefined''"
  by code_simp

text \<open>
  C2, as stated, fails: the gate blocks a call that carries no credentials, and the
  refusal it returns is the error flag and one text. It has no \<open>blocked\<close> flag and
  carries neither a required nor an available amount. This is so on an initialised
  plugin with a per-call configuration and on the plugin the constructor builds, once
  marked initialised.
\<close>

theorem gate_refusal_has_no_amounts:
  "beforeToolCall (mock_services ''k3x9'') (plugin_in ''production'') anonymous_call
     = Inr (Some \<lparr>res_content =
                    [JObj [(''type'', JStr ''text''),
                           (''text'', JStr ''Authentication required. Please provide valid credentials.'')]],
                  res_isError = Some True,
                  res_meta = None\<rparr>, anonymous_call)
   \<and> beforeToolCall (mock_services ''k3x9'') (configured_plugin\<lparr>initialized := True\<rparr>)
         anonymous_call
     = beforeToolCall (mock_services ''k3x9'') (plugin_in ''production'') anonymous_call"
  by (simp add: beforeToolCall_def beforeToolCall_try_def error_result_def anonymous_call_def
        configured_plugin_def StripeMonetizationPlugin_def plugin_defs js_defs)

text \<open>
  C2, amended: on an initialised plugin whose three checks answer, \<open>beforeToolCall\<close>
  blocks exactly when the caller is not authenticated, or the rate limit is exceeded, or
  the billing check answers without \<open>canProceed\<close>. It then returns (it does not throw, and
  it does not return \<open>undefined\<close>) the short-circuiting result made of the error flag and
  one text, and leaves the context as it was. The text is ``Authentication required.
  Please provide valid credentials.'', or the rate-limit notice, or the message of the
  billing check, or ``Payment required to use this tool.'' when that check gives none.
  The result has no \<open>blocked\<close> flag and no required or available amount. In every other
  case the hook returns \<open>undefined\<close> and attaches the billing metadata to the context.
\<close>

theorem gate_block_returns_refusal:
  assumes "initialized p"
    and "svc_authenticateUser sv context = Inr a"
    and "svc_checkRateLimit sv context (userId a) = Inr rl"
    and "svc_checkBilling sv p context (userId a) = Inr b"
  shows "beforeToolCall sv p context =
     (if \<not> authenticated a then
        Inr (Some \<lparr>res_content =
                     [JObj [(''type'', JStr ''text''),
                            (''text'', JStr ''Authentication required. Please provide valid credentials.'')]],
                   res_isError = Some True, res_meta = None\<rparr>, context)
      else if exceeded rl then
        Inr (Some \<lparr>res_content =
                     [JObj [(''type'', JStr ''text''),
                            (''text'', JStr (''Rate limit exceeded. Try again in ''
                                              @ template_num (retryAfter rl) @ '' seconds.''))]],
                   res_isError = Some True, res_meta = None\<rparr>, context)
      else if \<not> canProceed b then
        Inr (Some \<lparr>res_content =
                     [JObj [(''type'', JStr ''text''),
                            (''text'', JStr (case message b of
                                               None \<Rightarrow> ''Payment required to use this tool.''
                                             | Some m \<Rightarrow>
                                                 if m = [] then ''Payment required to use this tool.''
                                                 else m))]],
                   res_isError = Some True, res_meta = None\<rparr>, context)
      else
        Inr (None,
             context\<lparr>ctx_metadata :=
               Some (AList.update ''billing''
                       (JObj [(''userId'', case userId a of None \<Rightarrow> JUndefined | Some u \<Rightarrow> JStr u),
                              (''amount'', case amount b of None \<Rightarrow> JUndefined | Some n \<Rightarrow> JNum n),
                              (''currency'', JStr ''usd''),
                              (''billingModel'',
                                 case billingModel (config p) of
                                   None \<Rightarrow> JUndefined | Some m \<Rightarrow> JStr m)])
                       (case ctx_metadata context of None \<Rightarrow> [] | Some fs \<Rightarrow> fs))\<rparr>))"
  using assms
  by (simp add: beforeToolCall_def beforeToolCall_try_def error_result_def message_or_default_def
        billing_metadata_def spread_set_def js_of_str_def js_of_num_def)

theorem gate_block_returns_refusal_witness:
  "initialized (plugin_in ''production'')
   \<and> svc_authenticateUser (mock_services ''k3x9'') anonymous_call
       = Inr \<lparr>authenticated = False, userId = None\<rparr>
   \<and> svc_checkRateLimit (mock_services ''k3x9'') anonymous_call None
       = Inr \<lparr>exceeded = False, retryAfter = None\<rparr>
   \<and> svc_checkBilling (mock_services ''k3x9'') (plugin_in ''production'') anonymous_call None
       = Inr \<lparr>canProceed = True, amount = Some 100, message = None\<rparr>
   \<and> beforeToolCall (mock_services ''k3x9'') (plugin_in ''production'') anonymous_call
       = Inr (Some \<lparr>res_content =
                      [JObj [(''type'', JStr ''text''),
                             (''text'', JStr ''Authentication required. Please provide valid credentials.'')]],
                    res_isError = Some True, res_meta = None\<rparr>, anonymous_call)
   \<and> svc_authenticateUser (mock_services ''k3x9'') authorized_call
       = Inr \<lparr>authenticated = True, userId = Some ''user_k3x9''\<rparr>
   \<and> beforeToolCall (mock_services ''k3x9'') (plugin_in ''production'') authorized_call
       = Inr (None, billed_call)"
proof -
  have i: "initialized (plugin_in ''production'')"
    by (simp add: plugin_in_def)
  have a: "svc_authenticateUser (mock_services ''k3x9'') anonymous_call
             = Inr \<lparr>authenticated = False, userId = None\<rparr>"
    by (simp add: shipped_checks_answer anonymous_call_def js_defs)
  have a': "svc_authenticateUser (mock_services ''k3x9'') authorized_call
             = Inr \<lparr>authenticated = True, userId = Some ''user_k3x9''\<rparr>"
    by (simp add: shipped_checks_answer authorized_call_def js_defs)
  have r: "svc_checkRateLimit (mock_services ''k3x9'') c u
             = Inr \<lparr>exceeded = False, retryAfter = None\<rparr>" for c u
    by (simp add: shipped_checks_answer)
  have b: "svc_checkBilling (mock_services ''k3x9'') (plugin_in ''production'') c u
             = Inr \<lparr>canProceed = True, amount = Some 100, message = None\<rparr>" for c u
    by (simp add: shipped_checks_answer checkBilling_def plugin_in_def)
  have x: "beforeToolCall (mock_services ''k3x9'') (plugin_in ''production'') anonymous_call
       = Inr (Some \<lparr>res_content =
                      [JObj [(''type'', JStr ''text''),
                             (''text'', JStr ''Authentication required. Please provide valid credentials.'')]],
                    res_isError = Some True, res_meta = None\<rparr>, anonymous_call)"
    using gate_block_returns_refusal [OF i a r b] by simp
  have y: "beforeToolCall (mock_services ''k3x9'') (plugin_in ''production'') authorized_call
       = Inr (None, billed_call)"
    using gate_block_returns_refusal [OF i a' r b]
    by (simp add: plugin_in_def authorized_call_def billed_call_def)
  show ?thesis
    using i a a' r b x y by simp
qed

text \<open>
  C3, as stated, fails: under a per-call configuration whose default price is 200, with
  no tool price, no discount tier and no minimum charge, the specified price of a call
  is 200 and the billing check resolves 100.
\<close>

theorem checkBilling_ignores_prices:
  "billing (config (plugin_in ''production'')) = Some basic_billing
   \<and> spec_perCallPrice basic_billing (ctx_toolName authorized_call) 0 = 200
   \<and> amount (checkBilling (plugin_in ''production'') authorized_call (Some ''user_k3x9''))
       = Some 100"
  by (simp add: checkBilling_def plugin_in_def basic_billing_def authorized_call_def
        spec_perCallPrice_def spec_highest_tier_def)

text \<open>
  C3, amended: for every tool and every configuration the billing check lets the call
  proceed and resolves the amount from the billing model tag alone: 0 under
  \<open>subscription\<close> and \<open>freemium\<close>, 100 under \<open>per-call\<close> and under any other or missing
  tag. Tool prices, the default price, the discount tiers and the minimum charge are not
  consulted.
\<close>

theorem checkBilling_flat_amount:
  "checkBilling p context uid =
     \<lparr>canProceed = True,
      amount = Some (if billingModel (config p) = Some ''subscription''
                        \<or> billingModel (config p) = Some ''freemium'' then 0 else 100),
      message = None\<rparr>"
  by (simp add: checkBilling_def)

theorem checkBilling_flat_amount_witness:
  "checkBilling (plugin_in ''production'') authorized_call (Some ''user_k3x9'')
     = \<lparr>canProceed = True, amount = Some 100, message = None\<rparr>"
  using checkBilling_flat_amount [of "plugin_in ''production''" authorized_call "Some ''user_k3x9''"]
  by (simp add: plugin_in_def)

text \<open>
  What the catch block of the gate does with an exception of a check, on an initialised
  plugin: it lets the call through when \<open>this.config.environment\<close> is \<open>development\<close>, and
  otherwise answers with an error result.
\<close>

lemma gate_catches_exception:
  assumes "initialized p"
    and "svc_authenticateUser sv context = Inl e
         \<or> (\<exists>a. svc_authenticateUser sv context = Inr a \<and> authenticated a
               \<and> (svc_checkRateLimit sv context (userId a) = Inl e
                   \<or> (\<exists>rl. svc_checkRateLimit sv context (userId a) = Inr rl \<and> \<not> exceeded rl
                         \<and> svc_checkBilling sv p context (userId a) = Inl e)))"
  shows "beforeToolCall sv p context =
     (if environment (config p) = Some ''development'' then Inr (None, context)
      else Inr (Some \<lparr>res_content =
                        [JObj [(''type'', JStr ''text''),
                               (''text'', JStr ''Billing system temporarily unavailable. Please try again later.'')]],
                      res_isError = Some True, res_meta = None\<rparr>, context))"
proof -
  from assms(2) have "beforeToolCall_try sv p context = Inl e"
    by (simp add: beforeToolCall_try_throws)
  with assms(1) show ?thesis
    by (simp add: beforeToolCall_def error_result_def)
qed

text \<open>
  The plugin built from a development configuration, were it marked initialised and its
  billing check to fail, answers with the error result: the environment it was
  configured with is no longer in \<open>this.config\<close>.
\<close>

lemma development_setup_fails_closed:
  "beforeToolCall failing_services (configured_plugin\<lparr>initialized := True\<rparr>) authorized_call
     = Inr (Some \<lparr>res_content =
                    [JObj [(''type'', JStr ''text''),
                           (''text'', JStr ''Billing system temporarily unavailable. Please try again later.'')]],
                  res_isError = Some True, res_meta = None\<rparr>, authorized_call)"
  by (simp add: beforeToolCall_def beforeToolCall_try_def error_result_def failing_services_def
        configured_plugin_def StripeMonetizationPlugin_def createBasicSetup_def plugin_defs js_defs)



section \<open>The usage recorder\<close>

text \<open>
  C4, as stated, fails: a call that passed the per-call gate (which attached the amount
  100) and whose tool then failed is recorded with \<open>success = false\<close> at the amount 100, not
  at cost 0.
\<close>

theorem failed_call_recorded_at_price:
  "beforeToolCall (mock_services ''k3x9'') (plugin_in ''production'') authorized_call
     = Inr (None, billed_call)
   \<and> snd (afterToolCall (mock_services ''k3x9'') (plugin_in ''production'') 1700000000000
            ''2023-11-14T22:13:20.000Z'' billed_call failed_result)
     = [RecordUsage \<lparr>use_userId = JStr ''user_k3x9'', use_toolName = ''calculate'',
                      use_amount = JNum 100, use_timestamp = 1700000000000,
                      use_success = False\<rparr>]"
proof -
  have "snd (afterToolCall (mock_services ''k3x9'') (plugin_in ''production'') 1700000000000
            ''2023-11-14T22:13:20.000Z'' billed_call failed_result)
     = [RecordUsage \<lparr>use_userId = JStr ''user_k3x9'', use_toolName = ''calculate'',
                      use_amount = JNum 100, use_timestamp = 1700000000000,
                      use_success = False\<rparr>]"
    by (simp add: afterToolCall_def afterToolCall_try_def is_error_def Let_def
          plugin_defs js_defs)
  then show ?thesis
    using gate_attaches_billing by blast
qed

text \<open>
  C4, amended: on an initialised plugin, for a call whose context carries billing
  metadata and whose tool result is an error, \<open>afterToolCall\<close> calls the usage recorder
  exactly once, with \<open>success = false\<close> and with the amount found in the billing metadata
  (the one the gate attached, not 0), and does not call the payment processor. In every
  case the payment processor is called only when the tool result is not an error.
\<close>

theorem afterToolCall_error_trace:
  "(initialized p \<and> truthy (opt_prop (ctx_metadata context) ''billing'') \<and> is_error r
      \<longrightarrow> snd (afterToolCall sv p now stamp context r)
          = [RecordUsage
               \<lparr>use_userId = member (opt_prop (ctx_metadata context) ''billing'') ''userId'',
                use_toolName = ctx_toolName context,
                use_amount = member (opt_prop (ctx_metadata context) ''billing'') ''amount'',
                use_timestamp = now,
                use_success = False\<rparr>])
   \<and> (\<forall>pm. ProcessPayment pm \<in> set (snd (afterToolCall sv p now stamp context r))
          \<longrightarrow> \<not> is_error r)"
  by (auto simp add: afterToolCall_def afterToolCall_try_def Let_def
        split: sum.splits if_splits)

theorem afterToolCall_error_trace_witness:
  "initialized (plugin_in ''production'')
   \<and> truthy (opt_prop (ctx_metadata billed_call) ''billing'')
   \<and> is_error failed_result
   \<and> snd (afterToolCall unrecorded_services (plugin_in ''production'') 1700000000000
            ''2023-11-14T22:13:20.000Z'' billed_call failed_result)
     = [RecordUsage \<lparr>use_userId = JStr ''user_k3x9'', use_toolName = ''calculate'',
                      use_amount = JNum 100, use_timestamp = 1700000000000,
                      use_success = False\<rparr>]
   \<and> ProcessPayment \<lparr>pay_userId = JStr ''user_k3x9'', pay_amount = JNum 100,
                      pay_toolName = ''calculate'', pay_billingModel = JStr ''per-call''\<rparr>
       \<in> set (snd (afterToolCall (mock_services ''k3x9'') (plugin_in ''production'')
                     1700000000000 ''2023-11-14T22:13:20.000Z'' billed_call
                     (failed_result\<lparr>res_isError := None\<rparr>)))
   \<and> \<not> is_error (failed_result\<lparr>res_isError := None\<rparr>)"
proof -
  have h: "initialized (plugin_in ''production'')
           \<and> truthy (opt_prop (ctx_metadata billed_call) ''billing'')
           \<and> is_error failed_result"
    by (simp add: plugin_in_def billed_call_def authorized_call_def failed_result_def
          is_error_def js_defs)
  have m: "ProcessPayment \<lparr>pay_userId = JStr ''user_k3x9'', pay_amount = JNum 100,
                      pay_toolName = ''calculate'', pay_billingModel = JStr ''per-call''\<rparr>
       \<in> set (snd (afterToolCall (mock_services ''k3x9'') (plugin_in ''production'')
                     1700000000000 ''2023-11-14T22:13:20.000Z'' billed_call
                     (failed_result\<lparr>res_isError := None\<rparr>)))"
    by (simp add: afterToolCall_def afterToolCall_try_def is_error_def Let_def
          plugin_defs js_defs)
  have t: "snd (afterToolCall unrecorded_services (plugin_in ''production'') 1700000000000
                 ''2023-11-14T22:13:20.000Z'' billed_call failed_result)
     = [RecordUsage \<lparr>use_userId = JStr ''user_k3x9'', use_toolName = ''calculate'',
                      use_amount = JNum 100, use_timestamp = 1700000000000,
                      use_success = False\<rparr>]"
    using afterToolCall_error_trace [of "plugin_in ''production''" billed_call failed_result
            unrecorded_services 1700000000000 "''2023-11-14T22:13:20.000Z''"] h
    by (simp add: billed_call_def authorized_call_def js_defs)
  have n: "\<not> is_error (failed_result\<lparr>res_isError := None\<rparr>)"
    using afterToolCall_error_trace [of "plugin_in ''production''" billed_call
            "failed_result\<lparr>res_isError := None\<rparr>" "mock_services ''k3x9''" 1700000000000
            "''2023-11-14T22:13:20.000Z''"] m
    by blast
  show ?thesis
    using h m t n by blast
qed

text \<open>The recorder and the payment processor the source ships never throw.\<close>

lemma shipped_recorder_answers:
  "svc_recordUsage (mock_services rnd) u = Inr ()"
  "svc_processPayment (mock_services rnd) pm = Inr ()"
  by (simp_all add: mock_services_def recordUsage_def processPayment_def)

text \<open>
  C10: \<open>afterToolCall\<close> always returns, and what it returns is the result it was given
  with at most the \<open>billing\<close> key of \<open>_meta\<close> set: the content, the error flag and every
  other key of \<open>_meta\<close> are as they were. An uninitialised plugin, and a call without
  billing metadata, return the result unchanged. Otherwise, if the usage recorder
  throws, or the tool succeeded and the payment processor throws, the exception is
  caught and the \<open>billing\<close> entry holds the message ``Billing processing failed'' and
  \<open>charged = false\<close>; and if neither throws, the entry is the billing summary.
\<close>

theorem afterToolCall_frame:
  "fst (afterToolCall sv p now stamp context r) =
     (if \<not> initialized p \<or> \<not> truthy (opt_prop (ctx_metadata context) ''billing'') then r
      else if (\<exists>e. svc_recordUsage sv
                      \<lparr>use_userId = member (opt_prop (ctx_metadata context) ''billing'') ''userId'',
                       use_toolName = ctx_toolName context,
                       use_amount = member (opt_prop (ctx_metadata context) ''billing'') ''amount'',
                       use_timestamp = now,
                       use_success = (res_isError r \<noteq> Some True)\<rparr> = Inl e)
              \<or> (res_isError r \<noteq> Some True
                  \<and> (\<exists>e. svc_processPayment sv
                        \<lparr>pay_userId = member (opt_prop (ctx_metadata context) ''billing'') ''userId'',
                         pay_amount = member (opt_prop (ctx_metadata context) ''billing'') ''amount'',
                         pay_toolName = ctx_toolName context,
                         pay_billingModel =
                           member (opt_prop (ctx_metadata context) ''billing'') ''billingModel''\<rparr>
                        = Inl e))
      then r\<lparr>res_meta :=
               Some (AList.update ''billing''
                       (JObj [(''error'', JStr ''Billing processing failed''),
                              (''charged'', JBool False)])
                       (case res_meta r of None \<Rightarrow> [] | Some m \<Rightarrow> m))\<rparr>
      else r\<lparr>res_meta :=
               Some (AList.update ''billing''
                       (JObj [(''charged'', JBool (res_isError r \<noteq> Some True)),
                              (''amount'', member (opt_prop (ctx_metadata context) ''billing'') ''amount''),
                              (''currency'', JStr ''usd''),
                              (''toolName'', JStr (ctx_toolName context)),
                              (''timestamp'', JStr stamp)])
                       (case res_meta r of None \<Rightarrow> [] | Some m \<Rightarrow> m))\<rparr>)
   \<and> res_content (fst (afterToolCall sv p now stamp context r)) = res_content r
   \<and> res_isError (fst (afterToolCall sv p now stamp context r)) = res_isError r
   \<and> (\<forall>k. k \<noteq> ''billing''
          \<longrightarrow> opt_prop (res_meta (fst (afterToolCall sv p now stamp context r))) k
              = opt_prop (res_meta r) k)
   \<and> (\<not> initialized p \<longrightarrow> afterToolCall sv p now stamp context r = (r, []))"
proof -
  let ?out = "fst (afterToolCall sv p now stamp context r)"
  have shape: "?out =
     (if \<not> initialized p \<or> \<not> truthy (opt_prop (ctx_metadata context) ''billing'') then r
      else if (\<exists>e. svc_recordUsage sv
                      \<lparr>use_userId = member (opt_prop (ctx_metadata context) ''billing'') ''userId'',
                       use_toolName = ctx_toolName context,
                       use_amount = member (opt_prop (ctx_metadata context) ''billing'') ''amount'',
                       use_timestamp = now,
                       use_success = (res_isError r \<noteq> Some True)\<rparr> = Inl e)
              \<or> (res_isError r \<noteq> Some True
                  \<and> (\<exists>e. svc_processPayment sv
                        \<lparr>pay_userId = member (opt_prop (ctx_metadata context) ''billing'') ''userId'',
                         pay_amount = member (opt_prop (ctx_metadata context) ''billing'') ''amount'',
                         pay_toolName = ctx_toolName context,
                         pay_billingModel =
                           member (opt_prop (ctx_metadata context) ''billing'') ''billingModel''\<rparr>
                        = Inl e))
      then r\<lparr>res_meta :=
               Some (AList.update ''billing''
                       (JObj [(''error'', JStr ''Billing processing failed''),
                              (''charged'', JBool False)])
                       (case res_meta r of None \<Rightarrow> [] | Some m \<Rightarrow> m))\<rparr>
      else r\<lparr>res_meta :=
               Some (AList.update ''billing''
                       (JObj [(''charged'', JBool (res_isError r \<noteq> Some True)),
                              (''amount'', member (opt_prop (ctx_metadata context) ''billing'') ''amount''),
                              (''currency'', JStr ''usd''),
                              (''toolName'', JStr (ctx_toolName context)),
                              (''timestamp'', JStr stamp)])
                       (case res_meta r of None \<Rightarrow> [] | Some m \<Rightarrow> m))\<rparr>)"
    by (auto simp add: afterToolCall_def afterToolCall_try_def Let_def is_error_def
          with_billing_def billing_summary_def billing_failure_def spread_set_def
          split: sum.splits)
  have cases: "?out = r
      \<or> (\<exists>b. ?out = r\<lparr>res_meta := Some (AList.update ''billing'' b
                                          (case res_meta r of None \<Rightarrow> [] | Some m \<Rightarrow> m))\<rparr>)"
    unfolding shape by auto
  have content: "res_content ?out = res_content r" and flag: "res_isError ?out = res_isError r"
    using cases by auto
  have keys: "\<forall>k. k \<noteq> ''billing'' \<longrightarrow> opt_prop (res_meta ?out) k = opt_prop (res_meta r) k"
    using cases
    by (auto simp add: opt_prop_def get_prop_def update_conv' split: option.splits)
  have idle: "\<not> initialized p \<longrightarrow> afterToolCall sv p now stamp context r = (r, [])"
    by (simp add: afterToolCall_def)
  show ?thesis
    using shape content flag keys idle by blast
qed

theorem afterToolCall_frame_witness:
  "fst (afterToolCall (mock_services ''k3x9'') (plugin_in ''production'') 1700000000000
          ''2023-11-14T22:13:20.000Z'' billed_call good_result)
     = \<lparr>res_content = [JObj [(''type'', JStr ''text''), (''text'', JStr ''42'')]],
        res_isError = None,
        res_meta = Some [(''requestId'', JStr ''r-18''),
                         (''billing'', JObj [(''charged'', JBool True), (''amount'', JNum 100),
                                             (''currency'', JStr ''usd''),
                                             (''toolName'', JStr ''calculate''),
                                             (''timestamp'', JStr ''2023-11-14T22:13:20.000Z'')])]\<rparr>
   \<and> fst (afterToolCall unpaid_services (plugin_in ''production'') 1700000000000
            ''2023-11-14T22:13:20.000Z'' billed_call good_result)
     = \<lparr>res_content = [JObj [(''type'', JStr ''text''), (''text'', JStr ''42'')]],
        res_isError = None,
        res_meta = Some [(''requestId'', JStr ''r-18''),
                         (''billing'', JObj [(''error'', JStr ''Billing processing failed''),
                                             (''charged'', JBool False)])]\<rparr>
   \<and> fst (afterToolCall unrecorded_services (plugin_in ''production'') 1700000000000
            ''2023-11-14T22:13:20.000Z'' billed_call failed_result)
     = \<lparr>res_content = [JObj [(''type'', JStr ''text''), (''text'', JStr ''division by zero'')]],
        res_isError = Some True,
        res_meta = Some [(''requestId'', JStr ''r-17''),
                         (''billing'', JObj [(''error'', JStr ''Billing processing failed''),
                                             (''charged'', JBool False)])]\<rparr>
   \<and> afterToolCall (mock_services ''k3x9'') configured_plugin 1700000000000
        ''2023-11-14T22:13:20.000Z'' billed_call good_result
     = (good_result, [])"
proof -
  have bd: "opt_prop (ctx_metadata billed_call) ''billing''
              = JObj [(''userId'', JStr ''user_k3x9''), (''amount'', JNum 100),
                      (''currency'', JStr ''usd''), (''billingModel'', JStr ''per-call'')]"
    and tn: "ctx_toolName billed_call = ''calculate''"
    by (simp_all add: billed_call_def authorized_call_def js_defs)
  have i: "initialized (plugin_in ''production'')" and u: "\<not> initialized configured_plugin"
    by (simp_all add: plugin_in_def configured_plugin_def StripeMonetizationPlugin_def)
  have a: "fst (afterToolCall (mock_services ''k3x9'') (plugin_in ''production'') 1700000000000
          ''2023-11-14T22:13:20.000Z'' billed_call good_result)
     = \<lparr>res_content = [JObj [(''type'', JStr ''text''), (''text'', JStr ''42'')]],
        res_isError = None,
        res_meta = Some [(''requestId'', JStr ''r-18''),
                         (''billing'', JObj [(''charged'', JBool True), (''amount'', JNum 100),
                                             (''currency'', JStr ''usd''),
                                             (''toolName'', JStr ''calculate''),
                                             (''timestamp'', JStr ''2023-11-14T22:13:20.000Z'')])]\<rparr>"
    using afterToolCall_frame [of "mock_services ''k3x9''" "plugin_in ''production''"
            1700000000000 "''2023-11-14T22:13:20.000Z''" billed_call good_result]
    by (simp add: bd tn i shipped_recorder_answers good_result_def get_prop_def)
  have b: "fst (afterToolCall unpaid_services (plugin_in ''production'') 1700000000000
            ''2023-11-14T22:13:20.000Z'' billed_call good_result)
     = \<lparr>res_content = [JObj [(''type'', JStr ''text''), (''text'', JStr ''42'')]],
        res_isError = None,
        res_meta = Some [(''requestId'', JStr ''r-18''),
                         (''billing'', JObj [(''error'', JStr ''Billing processing failed''),
                                             (''charged'', JBool False)])]\<rparr>"
    using afterToolCall_frame [of unpaid_services "plugin_in ''production''"
            1700000000000 "''2023-11-14T22:13:20.000Z''" billed_call good_result]
    by (simp add: bd tn i unpaid_services_def good_result_def get_prop_def)
  have c: "fst (afterToolCall unrecorded_services (plugin_in ''production'') 1700000000000
            ''2023-11-14T22:13:20.000Z'' billed_call failed_result)
     = \<lparr>res_content = [JObj [(''type'', JStr ''text''), (''text'', JStr ''division by zero'')]],
        res_isError = Some True,
        res_meta = Some [(''requestId'', JStr ''r-17''),
                         (''billing'', JObj [(''error'', JStr ''Billing processing failed''),
                                             (''charged'', JBool False)])]\<rparr>"
    using afterToolCall_frame [of unrecorded_services "plugin_in ''production''"
            1700000000000 "''2023-11-14T22:13:20.000Z''" billed_call failed_result]
    by (simp add: bd tn i unrecorded_services_def failed_result_def get_prop_def)
  have d: "afterToolCall (mock_services ''k3x9'') configured_plugin 1700000000000
        ''2023-11-14T22:13:20.000Z'' billed_call good_result
     = (good_result, [])"
    using afterToolCall_frame [of "mock_services ''k3x9''" configured_plugin
            1700000000000 "''2023-11-14T22:13:20.000Z''" billed_call good_result] u
    by blast
  show ?thesis
    using a b c d by blast
qed


section \<open>The webhook endpoint\<close>

text \<open>
  C5: handling a webhook event acknowledges it and changes no ledger or subscription
  state, so handling the same event a second time leaves the state exactly as handling
  it once did, and answers the same.
\<close>

theorem handleWebhook_idempotent:
  "snd (handleWebhook payload signat st) = st
   \<and> received (fst (handleWebhook payload signat st))
   \<and> handleWebhook payload signat (snd (handleWebhook payload signat st))
       = handleWebhook payload signat st"
  by (simp add: handleWebhook_def)

theorem handleWebhook_idempotent_witness:
  "snd (handleWebhook ''{id: evt_1, type: payment_intent.succeeded}'' ''t=1,v1=ab''
          (snd (handleWebhook ''{id: evt_1, type: payment_intent.succeeded}''
                  ''t=1,v1=ab'' alice_db)))
     = alice_db"
  using handleWebhook_idempotent
          [of "''{id: evt_1, type: payment_intent.succeeded}''" "''t=1,v1=ab''" alice_db]
  by simp


section \<open>The customer table\<close>

lemma find_fresh:
  "\<not> list_ex P xs \<Longrightarrow> find P (xs @ [x]) = (if P x then Some x else None)"
  by (induction xs) auto

lemma find_map_update:
  assumes "\<And>row. row_customer_id (f row) = row_customer_id row"
  shows "find (\<lambda>row. row_customer_id row = cid)
           (map (\<lambda>row. if row_customer_id row = cid then f row else row) rows)
         = map_option f (find (\<lambda>row. row_customer_id row = cid) rows)"
  using assms by (induction rows) auto

text \<open>One update adds the signed change to the balance, whatever the result.\<close>

lemma balance_update:
  "balance cid (snd (updateCustomerCredits cid ch now db))
     = map_option (\<lambda>b. b + ch) (balance cid db)"
  by (cases "find (\<lambda>row. row_customer_id row = cid) (customers db)")
     (simp_all add: balance_def getCustomer_def updateCustomerCredits_def mapRowToCustomer_def
        find_map_update)

lemma manager_update_sqlite:
  "cid \<noteq> [] \<Longrightarrow> manager_updateCustomerCredits (SqliteAdapter u now) cid ch db
     = updateCustomerCredits cid ch now db"
  by (simp add: manager_updateCustomerCredits_def SqliteAdapter_def)

lemma update_succeeds: "fst (updateCustomerCredits cid ch now db) = Inr ()"
  by (simp add: updateCustomerCredits_def)

text \<open>No update of a batch is refused, in whatever order the batch arrives.\<close>

lemma updates_all_succeed:
  "\<forall>rq\<in>set rqs. fst rq \<noteq> [] \<Longrightarrow>
     fst (apply_credit_updates (SqliteAdapter u now) rqs db) = replicate (length rqs) (Inr ())"
proof (induction rqs arbitrary: db)
  case Nil
  then show ?case by simp
next
  case (Cons rq rqs)
  then show ?case
    by (simp add: manager_update_sqlite update_succeeds case_prod_beta)
qed

lemma updates_balance:
  "\<forall>rq\<in>set rqs. fst rq = cid \<Longrightarrow> cid \<noteq> [] \<Longrightarrow>
     balance cid (snd (apply_credit_updates (SqliteAdapter u now) rqs db))
       = map_option (\<lambda>b. b + sum_list (map snd rqs)) (balance cid db)"
proof (induction rqs arbitrary: db)
  case Nil
  then show ?case by (simp add: option.map_ident)
next
  case (Cons rq rqs)
  have step: "manager_updateCustomerCredits (SqliteAdapter u now) (fst rq) (snd rq) db
                = updateCustomerCredits cid (snd rq) now db"
    using Cons.prems by (simp add: manager_update_sqlite)
  have "balance cid (snd (apply_credit_updates (SqliteAdapter u now) (rq # rqs) db))
          = balance cid (snd (apply_credit_updates (SqliteAdapter u now) rqs
                                (snd (updateCustomerCredits cid (snd rq) now db))))"
    by (simp add: step case_prod_beta)
  also have "\<dots> = map_option (\<lambda>b. b + sum_list (map snd rqs))
                      (balance cid (snd (updateCustomerCredits cid (snd rq) now db)))"
    using Cons.IH Cons.prems by simp
  also have "\<dots> = map_option (\<lambda>b. b + sum_list (map snd (rq # rqs))) (balance cid db)"
    by (simp add: balance_update option.map_comp comp_def add.assoc)
  finally show ?case .
qed

lemma alice_db_balance: "balance ''c-1'' alice_db = Some 0"
  by (simp add: db_defs)

text \<open>
  C1: the code does not keep the balance non-negative. On a store holding one account
  with balance 0, \<open>DatabaseManager.updateCustomerCredits\<close> with the change \<open>-5\<close> succeeds
  and leaves the balance at \<open>-5\<close>.
\<close>

theorem updateCustomerCredits_goes_negative:
  "balance ''c-1'' alice_db = Some 0
   \<and> fst (manager_updateCustomerCredits (SqliteAdapter ''c-2'' 2000) ''c-1'' (- 5) alice_db)
       = Inr ()
   \<and> balance ''c-1''
        (snd (manager_updateCustomerCredits (SqliteAdapter ''c-2'' 2000) ''c-1'' (- 5) alice_db))
       = Some (- 5)"
  by (simp add: manager_update_sqlite update_succeeds balance_update alice_db_balance)

text \<open>
  C7: the code refuses no request. An account holding 2 credits, enough for 2 calls at
  the price 1, receives 7 requests that each take 1 credit: all 7 succeed and the
  balance ends at \<open>-5\<close>, where the claim has 2 successes and 5 refusals.
\<close>

theorem concurrent_updates_all_succeed:
  "balance ''c-1'' (snd (updateCustomerCredits ''c-1'' 2 1500 alice_db)) = Some 2
   \<and> fst (apply_credit_updates (SqliteAdapter ''c-2'' 2000) (replicate 7 (''c-1'', - 1))
            (snd (updateCustomerCredits ''c-1'' 2 1500 alice_db)))
       = replicate 7 (Inr ())
   \<and> balance ''c-1''
        (snd (apply_credit_updates (SqliteAdapter ''c-2'' 2000) (replicate 7 (''c-1'', - 1))
                (snd (updateCustomerCredits ''c-1'' 2 1500 alice_db))))
       = Some (- 5)"
proof -
  have b: "balance ''c-1'' (snd (updateCustomerCredits ''c-1'' 2 1500 alice_db)) = Some 2"
    by (simp add: balance_update alice_db_balance)
  have s: "fst (apply_credit_updates (SqliteAdapter ''c-2'' 2000) (replicate 7 (''c-1'', - 1))
            (snd (updateCustomerCredits ''c-1'' 2 1500 alice_db)))
       = replicate 7 (Inr ())"
    using updates_all_succeed [of "replicate 7 (''c-1'', - 1)" "''c-2''" 2000
            "snd (updateCustomerCredits ''c-1'' 2 1500 alice_db)"]
    by simp
  have e: "balance ''c-1''
        (snd (apply_credit_updates (SqliteAdapter ''c-2'' 2000) (replicate 7 (''c-1'', - 1))
                (snd (updateCustomerCredits ''c-1'' 2 1500 alice_db))))
       = Some (- 5)"
    using updates_balance [of "replicate 7 (''c-1'', - 1)" "''c-1''" "''c-2''" 2000
            "snd (updateCustomerCredits ''c-1'' 2 1500 alice_db)"] b
    by (simp add: sum_list_replicate)
  show ?thesis
    using b s e by blast
qed


section \<open>Credit transactions\<close>

lemma is_date_truthy: "is_date v \<Longrightarrow> truthy v"
  by (cases v) simp_all

lemma validateCreditTransaction_empty:
  "validateCreditTransaction t = [] \<longleftrightarrow>
     truthy (get_prop t ''customerId'')
     \<and> get_prop t ''type''
         \<in> JStr ` {''purchase'', ''consumption'', ''refund'', ''bonus'', ''expiry''}
     \<and> is_number (get_prop t ''amount'')
     \<and> is_number (get_prop t ''balanceAfter'') \<and> \<not> negative (get_prop t ''balanceAfter'')
     \<and> truthy (get_prop t ''description'')
     \<and> is_date (get_prop t ''timestamp'')"
  using is_date_truthy [of "get_prop t ''timestamp''"]
  by (auto simp add: validateCreditTransaction_def transaction_types_def)

text \<open>
  C8, as stated, fails: a transaction of type \<open>adjustment\<close>, valid in every other field,
  is rejected with a validation error and the ledger is not touched, while the same
  transaction of type \<open>bonus\<close> passes validation and reaches the adapter.
\<close>

theorem adjustment_rejected_bonus_accepted:
  "manager_createCreditTransaction ledger_adapter (credit_transaction ''adjustment'') []
     = (Inl (ValidationError ''Credit transaction validation failed''
               [(''type'', ''Valid transaction type is required'')]), [])
   \<and> manager_createCreditTransaction ledger_adapter (credit_transaction ''bonus'') []
     = (Inr ((''id'', JStr ''tx-1'') # credit_transaction ''bonus''),
        [credit_transaction ''bonus''])"
  by (simp add: manager_createCreditTransaction_def validateCreditTransaction_def
        transaction_types_def credit_transaction_def ledger_adapter_def get_prop_def)

text \<open>
  C8, amended: \<open>DatabaseManager.createCreditTransaction\<close> hands a transaction to the
  storage adapter exactly when its type is one of \<open>purchase\<close>, \<open>consumption\<close>, \<open>refund\<close>,
  \<open>bonus\<close>, \<open>expiry\<close>, its customer id and description are truthy (non-empty, for
  strings), its amount is a number, its \<open>balanceAfter\<close> is a number that is not negative,
  and its timestamp is a \<open>Date\<close>; on every other input it throws the validation error
  with the list of the failed fields, without invoking the adapter, and the storage is
  unchanged.
\<close>

theorem createCreditTransaction_accepts_iff:
  "manager_createCreditTransaction ad t st =
     (if truthy (get_prop t ''customerId'')
         \<and> get_prop t ''type''
             \<in> JStr ` {''purchase'', ''consumption'', ''refund'', ''bonus'', ''expiry''}
         \<and> is_number (get_prop t ''amount'')
         \<and> is_number (get_prop t ''balanceAfter'') \<and> \<not> negative (get_prop t ''balanceAfter'')
         \<and> truthy (get_prop t ''description'')
         \<and> is_date (get_prop t ''timestamp'')
      then ad_createCreditTransaction ad t st
      else (Inl (ValidationError ''Credit transaction validation failed''
                   (validateCreditTransaction t)), st))"
  using validateCreditTransaction_empty [of t]
  by (simp add: manager_createCreditTransaction_def)

theorem createCreditTransaction_accepts_iff_witness:
  "manager_createCreditTransaction ledger_adapter (credit_transaction ''refund'') []
     = (Inr ((''id'', JStr ''tx-1'') # credit_transaction ''refund''),
        [credit_transaction ''refund''])
   \<and> manager_createCreditTransaction ledger_adapter
        [(''customerId'', JStr ''c-1''), (''type'', JStr ''refund''), (''amount'', JNum 5),
         (''balanceAfter'', JNum (- 1)), (''description'', JStr ''''),
         (''timestamp'', JDate 1700000000000)] []
     = (Inl (ValidationError ''Credit transaction validation failed''
               [(''balanceAfter'', ''Balance after must be a non-negative number''),
                (''description'', ''Description is required'')]), [])"
  using createCreditTransaction_accepts_iff
          [of ledger_adapter "credit_transaction ''refund''" "[]"]
        createCreditTransaction_accepts_iff
          [of ledger_adapter
              "[(''customerId'', JStr ''c-1''), (''type'', JStr ''refund''), (''amount'', JNum 5),
                (''balanceAfter'', JNum (- 1)), (''description'', JStr ''''),
                (''timestamp'', JDate 1700000000000)]" "[]"]
  by (simp add: credit_transaction_def ledger_adapter_def get_prop_def
        validateCreditTransaction_def transaction_types_def)


section \<open>Creating and reading a customer\<close>

lemma alice_valid: "validateCustomerData alice = []"
  by (simp add: validateCustomerData_def email_test_def is_space_def alice_def)

lemma unnamed_valid: "validateCustomerData unnamed = []"
  by (simp add: validateCustomerData_def email_test_def is_space_def alice_def unnamed_def)

text \<open>
  Metadata are stored as JSON text: a date comes back as its ISO string and a key
  whose value is \<open>undefined\<close> does not come back.
\<close>

lemma metadata_comes_back_as_json:
  "Option.bind (getCustomer ''c-1''
       (snd (createCustomer ''c-1'' 1000
               (alice\<lparr>metadata := Some [(''since'', JDate 1000), (''note'', JUndefined)]\<rparr>)
               empty_db)))
     metadata
   = Some [(''since'', JStr ''1970-01-01T00:00:01.000Z'')]"
  by code_simp

text \<open>When an \<open>INSERT\<close> of a new customer violates a constraint, in terms of the stored rows.\<close>

lemma insert_violation_iff:
  "insert_violation (new_row cid now c) db \<longleftrightarrow>
     (\<exists>row\<in>set (customers db).
        row_customer_id row = cid \<or> row_email row = email c
        \<or> (\<exists>s. stripeCustomerId c = Some s \<and> s \<noteq> [] \<and> row_stripe_customer_id row = Some s))"
  by (auto simp add: insert_violation_def new_row_def list_ex_iff str_or_null_def
        split: option.splits if_splits)

lemma createCustomer_fresh:
  assumes "\<not> insert_violation (new_row cid now c) db"
  shows "createCustomer cid now c db
           = (Inr (mapRowToCustomer (new_row cid now c)),
              db\<lparr>customers := customers db @ [new_row cid now c]\<rparr>)"
    and "getCustomer cid (db\<lparr>customers := customers db @ [new_row cid now c]\<rparr>)
           = Some (mapRowToCustomer (new_row cid now c))"
proof -
  from assms have fresh: "\<not> list_ex (\<lambda>r. row_customer_id r = cid) (customers db)"
    by (simp add: insert_violation_def new_row_def)
  show g: "getCustomer cid (db\<lparr>customers := customers db @ [new_row cid now c]\<rparr>)
             = Some (mapRowToCustomer (new_row cid now c))"
    using find_fresh [OF fresh, of "new_row cid now c"]
    by (simp add: getCustomer_def new_row_def)
  show "createCustomer cid now c db
           = (Inr (mapRowToCustomer (new_row cid now c)),
              db\<lparr>customers := customers db @ [new_row cid now c]\<rparr>)"
    using assms g by (simp add: createCustomer_def Let_def)
qed

text \<open>
  C9, as stated, fails twice on valid input. A customer supplied with the empty name
  comes back with no name; and a customer whose email is already stored is not created
  at all: \<open>createCustomer\<close> throws and there is no record to read.
\<close>

theorem createCustomer_roundtrip_fails:
  "validateCustomerData unnamed = []
   \<and> name unnamed = Some []
   \<and> (\<exists>ci db'. manager_createCustomer (SqliteAdapter ''c-1'' 1000) unnamed empty_db = (Inr ci, db')
         \<and> manager_getCustomer (SqliteAdapter ''c-9'' 3000) (customerId ci) db'
             = (Inr (Some ci), db')
         \<and> name ci = None)
   \<and> manager_createCustomer (SqliteAdapter ''c-2'' 2000) unnamed alice_db
       = (Inl (DatabaseError ''createCustomer''), alice_db)"
proof -
  have a: "manager_createCustomer (SqliteAdapter ''c-1'' 1000) unnamed empty_db
             = createCustomer ''c-1'' 1000 unnamed empty_db"
    and b: "manager_createCustomer (SqliteAdapter ''c-2'' 2000) unnamed alice_db
             = createCustomer ''c-2'' 2000 unnamed alice_db"
    using unnamed_valid by (simp_all add: manager_createCustomer_def SqliteAdapter_def)
  have c: "\<exists>ci db'. createCustomer ''c-1'' 1000 unnamed empty_db = (Inr ci, db')
         \<and> manager_getCustomer (SqliteAdapter ''c-9'' 3000) (customerId ci) db'
             = (Inr (Some ci), db')
         \<and> name ci = None"
    by (simp add: manager_getCustomer_def unnamed_def db_defs)
  have d: "createCustomer ''c-2'' 2000 unnamed alice_db
       = (Inl (DatabaseError ''createCustomer''), alice_db)"
    by (simp add: unnamed_def db_defs)
  have e: "name unnamed = Some []"
    by (simp add: unnamed_def)
  show ?thesis
    using unnamed_valid a b c d e by simp
qed

text \<open>
  C9, amended: for every valid customer input and every non-empty generated id, when no
  stored customer has that id, the same email, or the same non-empty Stripe customer id,
  \<open>createCustomer\<close> succeeds and \<open>getCustomer\<close> with the returned id yields the very record
  \<open>createCustomer\<close> returned. Its email and status are those supplied. Its name, Stripe
  customer id and plan id are those supplied when they are non-empty, and missing when
  they are empty or missing. Its credits and usage counters are those supplied, and 0
  when missing. Its payment method is missing when none or one with an empty type is
  supplied, and otherwise has the type supplied, the last four digits and brand when
  non-empty, and the expiry month and year when not 0. When a stored customer does have
  that id, email or Stripe customer id, \<open>createCustomer\<close> throws a \<open>DatabaseError\<close> and
  the table is unchanged.
\<close>

theorem createCustomer_getCustomer_roundtrip:
  assumes "validateCustomerData c = []" and "cid \<noteq> []"
  shows "((\<forall>row\<in>set (customers db).
             row_customer_id row \<noteq> cid \<and> row_email row \<noteq> email c
             \<and> (\<forall>s. stripeCustomerId c = Some s \<and> s \<noteq> [] \<longrightarrow> row_stripe_customer_id row \<noteq> Some s))
          \<longrightarrow> (\<exists>ci db'.
                 manager_createCustomer (SqliteAdapter cid now) c db = (Inr ci, db')
                 \<and> manager_getCustomer (SqliteAdapter cid' now') (customerId ci) db'
                     = (Inr (Some ci), db')
                 \<and> customerId ci = cid
                 \<and> email ci = email c
                 \<and> status ci = status c
                 \<and> name ci = (case name c of None \<Rightarrow> None
                               | Some s \<Rightarrow> if s = [] then None else Some s)
                 \<and> stripeCustomerId ci
                     = (case stripeCustomerId c of None \<Rightarrow> None
                        | Some s \<Rightarrow> if s = [] then None else Some s)
                 \<and> planId ci = (case planId c of None \<Rightarrow> None
                                 | Some s \<Rightarrow> if s = [] then None else Some s)
                 \<and> credits ci = Some (case credits c of None \<Rightarrow> 0 | Some n \<Rightarrow> n)
                 \<and> usage ci
                     = Some (case usage c of
                               None \<Rightarrow> \<lparr>totalCalls = 0, currentPeriodCalls = 0,
                                          lastCallAt = None, totalSpent = 0\<rparr>
                             | Some u \<Rightarrow> u)
                 \<and> paymentMethod ci
                     = (case paymentMethod c of
                          None \<Rightarrow> None
                        | Some m \<Rightarrow>
                            if pm_type m = [] then None
                            else Some \<lparr>pm_type = pm_type m,
                                       last4 = (case last4 m of None \<Rightarrow> None
                                                | Some s \<Rightarrow> if s = [] then None else Some s),
                                       brand = (case brand m of None \<Rightarrow> None
                                                | Some s \<Rightarrow> if s = [] then None else Some s),
                                       expiryMonth = (case expiryMonth m of None \<Rightarrow> None
                                                      | Some n \<Rightarrow> if n = 0 then None else Some n),
                                       expiryYear = (case expiryYear m of None \<Rightarrow> None
                                                     | Some n \<Rightarrow> if n = 0 then None else Some n)\<rparr>)))
       \<and> ((\<exists>row\<in>set (customers db).
              row_customer_id row = cid \<or> row_email row = email c
              \<or> (\<exists>s. stripeCustomerId c = Some s \<and> s \<noteq> [] \<and> row_stripe_customer_id row = Some s))
          \<longrightarrow> manager_createCustomer (SqliteAdapter cid now) c db
                = (Inl (DatabaseError ''createCustomer''), db))"
proof (intro conjI impI)
  assume fresh: "\<forall>row\<in>set (customers db).
             row_customer_id row \<noteq> cid \<and> row_email row \<noteq> email c
             \<and> (\<forall>s. stripeCustomerId c = Some s \<and> s \<noteq> [] \<longrightarrow> row_stripe_customer_id row \<noteq> Some s)"
  then have nv: "\<not> insert_violation (new_row cid now c) db"
    by (auto simp add: insert_violation_iff)
  let ?ci = "mapRowToCustomer (new_row cid now c)"
  let ?db = "db\<lparr>customers := customers db @ [new_row cid now c]\<rparr>"
  have created: "manager_createCustomer (SqliteAdapter cid now) c db = (Inr ?ci, ?db)"
    using assms(1) createCustomer_fresh(1) [OF nv]
    by (simp add: manager_createCustomer_def SqliteAdapter_def)
  have ident: "customerId ?ci = cid"
    by (simp add: mapRowToCustomer_def new_row_def)
  have read: "manager_getCustomer (SqliteAdapter cid' now') (customerId ?ci) ?db
                = (Inr (Some ?ci), ?db)"
    using assms(2) createCustomer_fresh(2) [OF nv] ident
    by (simp add: manager_getCustomer_def SqliteAdapter_def)
  have plain: "email ?ci = email c" "status ?ci = status c"
      "credits ?ci = Some (case credits c of None \<Rightarrow> 0 | Some n \<Rightarrow> n)"
    by (simp_all add: mapRowToCustomer_def new_row_def num_or_zero_def)
  have strings:
      "name ?ci = (case name c of None \<Rightarrow> None | Some s \<Rightarrow> if s = [] then None else Some s)"
      "stripeCustomerId ?ci
         = (case stripeCustomerId c of None \<Rightarrow> None | Some s \<Rightarrow> if s = [] then None else Some s)"
      "planId ?ci = (case planId c of None \<Rightarrow> None | Some s \<Rightarrow> if s = [] then None else Some s)"
    by (simp_all add: mapRowToCustomer_def new_row_def str_or_null_def)
  have counters: "usage ?ci
                     = Some (case usage c of
                               None \<Rightarrow> \<lparr>totalCalls = 0, currentPeriodCalls = 0,
                                          lastCallAt = None, totalSpent = 0\<rparr>
                             | Some u \<Rightarrow> u)"
    by (simp add: mapRowToCustomer_def new_row_def split: option.splits)
  have payment: "paymentMethod ?ci
                     = (case paymentMethod c of
                          None \<Rightarrow> None
                        | Some m \<Rightarrow>
                            if pm_type m = [] then None
                            else Some \<lparr>pm_type = pm_type m,
                                       last4 = (case last4 m of None \<Rightarrow> None
                                                | Some s \<Rightarrow> if s = [] then None else Some s),
                                       brand = (case brand m of None \<Rightarrow> None
                                                | Some s \<Rightarrow> if s = [] then None else Some s),
                                       expiryMonth = (case expiryMonth m of None \<Rightarrow> None
                                                      | Some n \<Rightarrow> if n = 0 then None else Some n),
                                       expiryYear = (case expiryYear m of None \<Rightarrow> None
                                                     | Some n \<Rightarrow> if n = 0 then None else Some n)\<rparr>)"
    by (simp add: mapRowToCustomer_def new_row_def str_or_null_def num_or_null_def
          split: option.splits)
  show "\<exists>ci db'.
                 manager_createCustomer (SqliteAdapter cid now) c db = (Inr ci, db')
                 \<and> manager_getCustomer (SqliteAdapter cid' now') (customerId ci) db'
                     = (Inr (Some ci), db')
                 \<and> customerId ci = cid
                 \<and> email ci = email c
                 \<and> status ci = status c
                 \<and> name ci = (case name c of None \<Rightarrow> None
                               | Some s \<Rightarrow> if s = [] then None else Some s)
                 \<and> stripeCustomerId ci
                     = (case stripeCustomerId c of None \<Rightarrow> None
                        | Some s \<Rightarrow> if s = [] then None else Some s)
                 \<and> planId ci = (case planId c of None \<Rightarrow> None
                                 | Some s \<Rightarrow> if s = [] then None else Some s)
                 \<and> credits ci = Some (case credits c of None \<Rightarrow> 0 | Some n \<Rightarrow> n)
                 \<and> usage ci
                     = Some (case usage c of
                               None \<Rightarrow> \<lparr>totalCalls = 0, currentPeriodCalls = 0,
                                          lastCallAt = None, totalSpent = 0\<rparr>
                             | Some u \<Rightarrow> u)
                 \<and> paymentMethod ci
                     = (case paymentMethod c of
                          None \<Rightarrow> None
                        | Some m \<Rightarrow>
                            if pm_type m = [] then None
                            else Some \<lparr>pm_type = pm_type m,
                                       last4 = (case last4 m of None \<Rightarrow> None
                                                | Some s \<Rightarrow> if s = [] then None else Some s),
                                       brand = (case brand m of None \<Rightarrow> None
                                                | Some s \<Rightarrow> if s = [] then None else Some s),
                                       expiryMonth = (case expiryMonth m of None \<Rightarrow> None
                                                      | Some n \<Rightarrow> if n = 0 then None else Some n),
                                       expiryYear = (case expiryYear m of None \<Rightarrow> None
                                                     | Some n \<Rightarrow> if n = 0 then None else Some n)\<rparr>)"
    using created read ident plain strings counters payment by blast
next
  assume "\<exists>row\<in>set (customers db).
              row_customer_id row = cid \<or> row_email row = email c
              \<or> (\<exists>s. stripeCustomerId c = Some s \<and> s \<noteq> [] \<and> row_stripe_customer_id row = Some s)"
  then have "insert_violation (new_row cid now c) db"
    by (simp add: insert_violation_iff)
  then show "manager_createCustomer (SqliteAdapter cid now) c db
                = (Inl (DatabaseError ''createCustomer''), db)"
    using assms(1)
    by (simp add: manager_createCustomer_def SqliteAdapter_def createCustomer_def)
qed

lemma alice_db_rows:
  "customers alice_db = [new_row ''c-1'' 1000 alice]"
  by (simp add: alice_db_def createCustomer_def insert_violation_def getCustomer_def
        empty_db_def new_row_def Let_def)

theorem createCustomer_getCustomer_roundtrip_witness:
  "validateCustomerData alice = [] \<and> ''c-1'' \<noteq> [] \<and> ''c-2'' \<noteq> []
   \<and> customers empty_db = []
   \<and> (\<exists>ci db'. manager_createCustomer (SqliteAdapter ''c-1'' 1000) alice empty_db = (Inr ci, db')
         \<and> manager_getCustomer (SqliteAdapter ''c-2'' 2000) (customerId ci) db'
             = (Inr (Some ci), db')
         \<and> customerId ci = ''c-1''
         \<and> email ci = ''alice@example.com'' \<and> status ci = ''active''
         \<and> name ci = Some ''Alice'' \<and> stripeCustomerId ci = Some ''cus_A1''
         \<and> planId ci = Some ''basic'' \<and> credits ci = Some 0
         \<and> usage ci = Some \<lparr>totalCalls = 0, currentPeriodCalls = 0,
                               lastCallAt = None, totalSpent = 0\<rparr>
         \<and> paymentMethod ci = None)
   \<and> (\<exists>row\<in>set (customers alice_db). row_email row = email alice)
   \<and> manager_createCustomer (SqliteAdapter ''c-2'' 2000) alice alice_db
       = (Inl (DatabaseError ''createCustomer''), alice_db)"
proof -
  have n: "''c-1'' \<noteq> []" and n': "''c-2'' \<noteq> []"
    by simp_all
  have e: "customers empty_db = []"
    by (simp add: empty_db_def)
  have f: "alice = \<lparr>stripeCustomerId = Some ''cus_A1'', email = ''alice@example.com'',
      name = Some ''Alice'', metadata = None, subscriptionStatus = None, planId = Some ''basic'',
      credits = Some 0,
      usage = Some \<lparr>totalCalls = 0, currentPeriodCalls = 0, lastCallAt = None, totalSpent = 0\<rparr>,
      paymentMethod = None, status = ''active''\<rparr>"
    by (simp add: alice_def)
  have x: "\<exists>row\<in>set (customers alice_db). row_email row = email alice"
    by (simp add: alice_db_rows new_row_def)
  have a: "\<exists>ci db'. manager_createCustomer (SqliteAdapter ''c-1'' 1000) alice empty_db = (Inr ci, db')
         \<and> manager_getCustomer (SqliteAdapter ''c-2'' 2000) (customerId ci) db'
             = (Inr (Some ci), db')
         \<and> customerId ci = ''c-1''
         \<and> email ci = ''alice@example.com'' \<and> status ci = ''active''
         \<and> name ci = Some ''Alice'' \<and> stripeCustomerId ci = Some ''cus_A1''
         \<and> planId ci = Some ''basic'' \<and> credits ci = Some 0
         \<and> usage ci = Some \<lparr>totalCalls = 0, currentPeriodCalls = 0,
                               lastCallAt = None, totalSpent = 0\<rparr>
         \<and> paymentMethod ci = None"
    using createCustomer_getCustomer_roundtrip
            [OF alice_valid n, of empty_db 1000 "''c-2''" 2000] e
    by (simp add: f)
  have b: "manager_createCustomer (SqliteAdapter ''c-2'' 2000) alice alice_db
       = (Inl (DatabaseError ''createCustomer''), alice_db)"
    using createCustomer_getCustomer_roundtrip
            [OF alice_valid n', of alice_db 2000 "''c-9''" 3000] x
    by blast
  show ?thesis
    using alice_valid n n' e a x b by blast
qed

end
